theory Spec2Isabelle
  imports Main "HOL-Library.Char_ord" "HOL-Library.List_Lexorder" "HOL-Library.AList"
begin

section \<open>Strings\<close>

text \<open>
  A Go string is a sequence of bytes; it is modelled as a \<open>string\<close> whose characters
  are those bytes. Text is UTF-8 encoded.
\<close>

abbreviation LF :: char where "LF \<equiv> CHR 0x0A"
abbreviation CR :: char where "CR \<equiv> CHR 0x0D"

text \<open>
  The UTF-8 encodings of the code points for which \<open>unicode.IsSpace\<close> holds:
  the six ASCII ones, U+0085, U+00A0, U+1680, U+2000 to U+200A, U+2028, U+2029, U+202F,
  U+205F and U+3000.
\<close>

definition spaceEncodings :: "string list" where
  "spaceEncodings =
    [ [CHR 0x09], [CHR 0x0A], [CHR 0x0B], [CHR 0x0C], [CHR 0x0D], [CHR 0x20],
     [CHR 0xC2, CHR 0x85], [CHR 0xC2, CHR 0xA0],
     [CHR 0xE1, CHR 0x9A, CHR 0x80],
     [CHR 0xE2, CHR 0x80, CHR 0x80], [CHR 0xE2, CHR 0x80, CHR 0x81],
     [CHR 0xE2, CHR 0x80, CHR 0x82], [CHR 0xE2, CHR 0x80, CHR 0x83],
     [CHR 0xE2, CHR 0x80, CHR 0x84], [CHR 0xE2, CHR 0x80, CHR 0x85],
     [CHR 0xE2, CHR 0x80, CHR 0x86], [CHR 0xE2, CHR 0x80, CHR 0x87],
     [CHR 0xE2, CHR 0x80, CHR 0x88], [CHR 0xE2, CHR 0x80, CHR 0x89],
     [CHR 0xE2, CHR 0x80, CHR 0x8A],
     [CHR 0xE2, CHR 0x80, CHR 0xA8], [CHR 0xE2, CHR 0x80, CHR 0xA9],
     [CHR 0xE2, CHR 0x80, CHR 0xAF],
     [CHR 0xE2, CHR 0x81, CHR 0x9F],
     [CHR 0xE3, CHR 0x80, CHR 0x80] ]"

text \<open>
  \<open>leadingOf ws s\<close> is the first sequence of \<open>ws\<close> that \<open>s\<close> starts with, if any
  (the white-space rune that \<open>utf8.DecodeRuneInString\<close> finds at the front).
\<close>

definition leadingOf :: "string list \<Rightarrow> string \<Rightarrow> string option" where
  "leadingOf ws s = find (\<lambda>w. w \<noteq> [] \<and> take (length w) s = w) ws"

function stripLeading :: "string list \<Rightarrow> string \<Rightarrow> string" where
  "stripLeading ws s =
     (case leadingOf ws s of
        None \<Rightarrow> s
      | Some w \<Rightarrow> stripLeading ws (drop (length w) s))"
  by pat_completeness auto
termination
proof (relation "measure (\<lambda>(ws, s). length s)")
  show "wf (measure (\<lambda>(ws, s). length s))" by simp
next
  fix ws :: "string list" and s w :: string
  assume "leadingOf ws s = Some w"
  then have w: "w \<noteq> []" and t: "take (length w) s = w"
    by (auto simp: leadingOf_def find_Some_iff)
  have "length (take (length w) s) \<le> length s"
    by simp
  with t have "length w \<le> length s"
    by simp
  moreover from w have "0 < length w"
    by simp
  ultimately have "length s - length w < length s"
    by arith
  then show "((ws, drop (length w) s), (ws, s)) \<in> measure (\<lambda>(ws, s). length s)"
    by simp
qed

declare stripLeading.simps [simp del]

text \<open>\<open>strings.TrimSpace\<close>: white space is cut from the front, then from the back.\<close>

definition TrimSpace :: "string \<Rightarrow> string" where
  "TrimSpace s =
     rev (stripLeading (map rev spaceEncodings) (rev (stripLeading spaceEncodings s)))"

text \<open>\<open>strings.Join(lines, "\n")\<close>.\<close>

fun joinLines :: "string list \<Rightarrow> string" where
  "joinLines [] = []"
| "joinLines [l] = l"
| "joinLines (l # ls) = l @ LF # joinLines ls"

text \<open>\<open>strings.Split(content, "\n")\<close>: always at least one piece.\<close>

fun splitLines :: "string \<Rightarrow> string list" where
  "splitLines [] = [ [] ]"
| "splitLines (c # cs) =
     (if c = LF then [] # splitLines cs
      else (case splitLines cs of
              [] \<Rightarrow> [ [c] ]
            | l # ls \<Rightarrow> (c # l) # ls))"

text \<open>\<open>strings.ReplaceAll(value, "\r\n", "\n")\<close>.\<close>

fun replaceCRLF :: "string \<Rightarrow> string" where
  "replaceCRLF (c # d # cs) =
     (if c = CR \<and> d = LF then LF # replaceCRLF cs else c # replaceCRLF (d # cs))"
| "replaceCRLF cs = cs"

text \<open>\<open>strings.TrimRight(value, "\n")\<close>.\<close>

definition trimRightLF :: "string \<Rightarrow> string" where
  "trimRightLF s = rev (dropWhile (\<lambda>c. c = LF) (rev s))"

section \<open>The editor round trip (editor.go)\<close>

definition normalizeEditorContent :: "string \<Rightarrow> string" where
  "normalizeEditorContent v = trimRightLF (replaceCRLF v)"

definition parseEditorLines :: "string \<Rightarrow> string list" where
  "parseEditorLines content =
     (if content = [] then []
      else filter (\<lambda>trimmed. trimmed \<noteq> []) (map TrimSpace (splitLines content)))"

section \<open>Records of a day (app.go)\<close>

text \<open>
  \<open>app.Answer\<close> and \<open>app.DayLog\<close>. The Go map \<open>Answers\<close> is an association list;
  it is read with \<open>map_of\<close> and written with \<open>AList.update\<close> and \<open>AList.delete\<close>.
  A Go \<open>error\<close> is the text of its message.
\<close>

record Answer =
  Time :: string
  Response :: string

record DayLog =
  Date :: string
  Answers :: "(string \<times> Answer list) list"

type_synonym error = string

text \<open>\<open>log.Answers[q]\<close>: the nil slice for a key that is absent.\<close>

definition answersOf :: "DayLog \<Rightarrow> string \<Rightarrow> Answer list" where
  "answersOf l q = (case map_of (Answers l) q of None \<Rightarrow> [] | Some entries \<Rightarrow> entries)"

definition setAnswers :: "string \<Rightarrow> Answer list \<Rightarrow> DayLog \<Rightarrow> DayLog" where
  "setAnswers q entries l = l\<lparr>Answers := AList.update q entries (Answers l)\<rparr>"

definition deleteAnswers :: "string \<Rightarrow> DayLog \<Rightarrow> DayLog" where
  "deleteAnswers q l = l\<lparr>Answers := AList.delete q (Answers l)\<rparr>"

record Config =
  Questions :: "string list"
  ShowHints :: "bool option"
  AutoInsertEntries :: "bool option"
  DefaultListMode :: "bool option"
  AutoOpenIndexJump :: "bool option"
  ConfirmDelete :: "bool option"
  ContinueInsertAfterSave :: "bool option"
  ConfirmEscapeWithText :: "bool option"
  StatusMessageDurationMs :: "int option"
  EscapeConfirmTimeoutMs :: "int option"

definition HintsEnabled :: "Config \<Rightarrow> bool" where
  "HintsEnabled cfg = (case ShowHints cfg of None \<Rightarrow> True | Some b \<Rightarrow> b)"

definition AutoInsertEnabled :: "Config \<Rightarrow> bool" where
  "AutoInsertEnabled cfg = (case AutoInsertEntries cfg of None \<Rightarrow> True | Some b \<Rightarrow> b)"

definition DefaultListModeEnabled :: "Config \<Rightarrow> bool" where
  "DefaultListModeEnabled cfg = (case DefaultListMode cfg of None \<Rightarrow> False | Some b \<Rightarrow> b)"

definition AutoOpenIndexJumpEnabled :: "Config \<Rightarrow> bool" where
  "AutoOpenIndexJumpEnabled cfg = (case AutoOpenIndexJump cfg of None \<Rightarrow> True | Some b \<Rightarrow> b)"

definition ConfirmDeleteEnabled :: "Config \<Rightarrow> bool" where
  "ConfirmDeleteEnabled cfg = (case ConfirmDelete cfg of None \<Rightarrow> True | Some b \<Rightarrow> b)"

text \<open>The duration in milliseconds.\<close>

definition StatusMessageDuration :: "Config \<Rightarrow> int" where
  "StatusMessageDuration cfg =
     (case StatusMessageDurationMs cfg of
        None \<Rightarrow> 1000
      | Some ms \<Rightarrow> if 0 < ms then ms else 1000)"

section \<open>Reconciliation of a whole-question edit (model.go)\<close>

definition responsesForQuestion :: "Answer list \<Rightarrow> string list" where
  "responsesForQuestion entries = map Response entries"

text \<open>
  The pool of \<open>rebuildAnswers\<close> maps a response text to the timestamps of the entries
  that carry it, oldest first; a text that is no key reads as the nil slice.
\<close>

fun buildPool :: "Answer list \<Rightarrow> (string \<Rightarrow> string list) \<Rightarrow> (string \<Rightarrow> string list)" where
  "buildPool [] pool = pool"
| "buildPool (ans # rest) pool =
     buildPool rest (pool(Response ans := pool (Response ans) @ [Time ans]))"

text \<open>
  The second loop of \<open>rebuildAnswers\<close>. It reads the clock once for every line that is
  not blank, before it looks the text up in the pool: \<open>now n\<close> is the \<open>n\<close>-th reading
  \<open>time.Now().Format(time.RFC3339)\<close> of the call, counted from 0.
\<close>

fun rebuildLoop ::
  "(nat \<Rightarrow> string) \<Rightarrow> nat \<Rightarrow> (string \<Rightarrow> string list) \<Rightarrow> string list \<Rightarrow> Answer list" where
  "rebuildLoop now n pool [] = []"
| "rebuildLoop now n pool (r # rs) =
     (let resp = TrimSpace r in
      if resp = [] then rebuildLoop now n pool rs
      else (case pool resp of
              [] \<Rightarrow> \<lparr>Time = now n, Response = resp\<rparr> # rebuildLoop now (n + 1) pool rs
            | t # stamps \<Rightarrow>
                \<lparr>Time = t, Response = resp\<rparr> #
                rebuildLoop now (n + 1) (pool(resp := stamps)) rs))"

definition rebuildAnswers :: "(nat \<Rightarrow> string) \<Rightarrow> Answer list \<Rightarrow> string list \<Rightarrow> Answer list" where
  "rebuildAnswers now existing responses =
     (if responses = [] then []
      else rebuildLoop now 0 (buildPool existing (\<lambda>_. [])) responses)"

section \<open>The session model (model.go)\<close>

datatype viewMode = viewList | viewDetail

datatype rowKind = rowQuestion | rowEntry

record listRow =
  kind :: rowKind
  question :: string
  entryIndex :: int

text \<open>
  Of the \<open>textinput.Model\<close> of the bubbles library the value, the focus and the width
  are kept.
\<close>

record textinput =
  tiValue :: string
  tiFocused :: bool
  tiWidth :: int

record detailState =
  dQuestion :: string
  editing :: bool
  input :: textinput

record deleteConfirmState =
  pendingQuestion :: string
  pendingIndex :: int

datatype externalOpenKind = openKindDay | openKindConfig

record editorResultMsg =
  erQuestion :: string
  erEntryIndex :: int
  responses :: "string list"
  changed :: bool
  erErr :: "error option"

datatype Msg =
    WindowSizeMsg int int
  | KeyMsg string
  | EditorResultMsg editorResultMsg
  | StatusTimeoutMsg int
  | ExternalOpenResultMsg externalOpenKind "error option"
  | OtherMsg

text \<open>
  The commands the model hands back to the runtime: \<open>tea.Quit\<close>, \<open>tea.Tick\<close> with
  its duration and the sequence number its message will carry, \<open>editEntriesCmd\<close>,
  \<open>openFileInEditorCmd\<close>, and whatever command the text input returns.
\<close>

datatype Cmd =
    Quit
  | Tick int int
  | EditEntries string "string list" int
  | OpenFileInEditor string externalOpenKind
  | InputCmd

text \<open>
  What one event reads from outside the model: the clock (\<open>timeNow n\<close> is the \<open>n\<close>-th
  reading taken while the event is handled), the storage calls of package \<open>app\<close> with
  their results, and the update function of the text input.
\<close>

record env =
  timeNow :: "nat \<Rightarrow> string"
  today :: int
  SaveDayLog :: "int \<Rightarrow> DayLog \<Rightarrow> error option"
  LoadDayLog :: "int \<Rightarrow> error + DayLog"
  SaveConfig :: "Config \<Rightarrow> error option"
  DayFilePath :: "int \<Rightarrow> error + string"
  textinputUpdate :: "Msg \<Rightarrow> textinput \<Rightarrow> textinput \<times> bool"

text \<open>
  The struct \<open>model\<close>. A day is its day number. \<open>statusTimeout\<close> is in nanoseconds.
  \<open>saveCalls\<close> is not a field of the source: it lists every call of
  \<open>app.SaveDayLog\<close> with its arguments, oldest first.
\<close>

record model =
  cfgQuestions :: "string list"
  config :: Config
  day :: int
  log :: DayLog
  questions :: "string list"
  questionIndex :: "string \<rightharpoonup> int"
  rows :: "listRow list"
  selected :: int
  listMode :: bool
  disableJKNav :: bool
  showHints :: bool
  autoInsert :: bool
  autoOpenIndex :: bool
  confirmDelete :: bool
  view :: viewMode
  detail :: detailState
  deleteConfirm :: "deleteConfirmState option"
  confirmPrompt :: string
  showDeletePrompt :: bool
  status :: string
  statusSeq :: int
  statusTimeout :: int
  statusTimerCmd :: "Cmd option"
  err :: "error option"
  width :: int
  height :: int
  saveCalls :: "(int \<times> DayLog) list"

text \<open>A Go \<open>int\<close> has 64 bits; arithmetic that leaves the range wraps around.\<close>

definition wrapInt :: "int \<Rightarrow> int" where
  "wrapInt x = (x + 2 ^ 63) mod 2 ^ 64 - 2 ^ 63"

definition indexRunes :: string where
  "indexRunes = ''0123456789abcdefghijklmnopqrstuvwxyz''"

definition jkDisableThreshold :: nat where
  "jkDisableThreshold = 20"

definition setStatus :: "string \<Rightarrow> model \<Rightarrow> model" where
  "setStatus text m =
     (let m1 = m\<lparr>status := text, statusSeq := wrapInt (statusSeq m + 1)\<rparr> in
      if text = [] \<or> statusTimeout m1 \<le> 0 then m1\<lparr>statusTimerCmd := None\<rparr>
      else m1\<lparr>statusTimerCmd := Some (Tick (statusTimeout m1) (statusSeq m1))\<rparr>)"

definition moveSelection :: "int \<Rightarrow> model \<Rightarrow> model" where
  "moveSelection delta m =
     (if rows m = [] then m\<lparr>selected := 0\<rparr>
      else
        (let next1 = wrapInt (selected m + delta);
             next2 = (if next1 < 0 then 0 else next1);
             next3 = (if int (length (rows m)) \<le> next2 then int (length (rows m)) - 1 else next2)
         in m\<lparr>selected := next3\<rparr>))"

fun findRune :: "char \<Rightarrow> string \<Rightarrow> int \<Rightarrow> int option" where
  "findRune r [] idx = None"
| "findRune r (candidate # rest) idx =
     (if candidate = r then Some idx else findRune r rest (idx + 1))"

definition runeToIndex :: "char \<Rightarrow> int option" where
  "runeToIndex r = findRune r indexRunes 0"

text \<open>
  The loop of \<open>rowIndexForQuestion\<close>, over the questions from position \<open>i\<close> on,
  with the offset reached so far.
\<close>

fun rowOffsetLoop :: "DayLog \<Rightarrow> string list \<Rightarrow> int \<Rightarrow> int \<Rightarrow> int \<Rightarrow> int" where
  "rowOffsetLoop l [] i idx offset = -1"
| "rowOffsetLoop l (q # qs) i idx offset =
     (if i = idx then offset
      else rowOffsetLoop l qs (i + 1) idx (offset + 1 + int (length (answersOf l q))))"

definition rowIndexForQuestion :: "int \<Rightarrow> model \<Rightarrow> int" where
  "rowIndexForQuestion idx m =
     (if idx < 0 \<or> int (length (questions m)) \<le> idx then -1
      else if \<not> listMode m then idx
      else rowOffsetLoop (log m) (questions m) 0 idx 0)"

definition jumpToIndex :: "char \<Rightarrow> model \<Rightarrow> model \<times> bool" where
  "jumpToIndex r m =
     (case runeToIndex r of
        None \<Rightarrow> (m, False)
      | Some idx \<Rightarrow>
          if idx < 0 \<or> int (length (questions m)) \<le> idx then (m, False)
          else (let rowIdx = rowIndexForQuestion idx m in
                if rowIdx < 0 then (m, False) else (m\<lparr>selected := rowIdx\<rparr>, True)))"

definition selectQuestionByIndex :: "int \<Rightarrow> model \<Rightarrow> model" where
  "selectQuestionByIndex idx m =
     (if idx < 0 \<or> int (length (questions m)) \<le> idx then m
      else (let rowIdx = rowIndexForQuestion idx m in
            if 0 \<le> rowIdx then m\<lparr>selected := rowIdx\<rparr> else m))"

definition selectQuestionByName :: "string \<Rightarrow> model \<Rightarrow> model" where
  "selectQuestionByName q m =
     (case questionIndex m q of
        Some idx \<Rightarrow> selectQuestionByIndex idx m
      | None \<Rightarrow> m)"

definition currentRow :: "model \<Rightarrow> listRow option" where
  "currentRow m =
     (if rows m = [] \<or> selected m < 0 \<or> int (length (rows m)) \<le> selected m then None
      else Some (rows m ! nat (selected m)))"

text \<open>
  The loop of \<open>mergeQuestions\<close> over the keys of the record: a key with no entry is
  skipped, a key not seen yet is an extra.
\<close>

fun collectExtras :: "(string \<times> Answer list) list \<Rightarrow> string list \<Rightarrow> string list \<Rightarrow> string list" where
  "collectExtras [] seen extras = extras"
| "collectExtras ((q, entries) # rest) seen extras =
     (if entries = [] then collectExtras rest seen extras
      else if q \<in> set seen then collectExtras rest seen extras
      else collectExtras rest (q # seen) (extras @ [q]))"

definition mergeQuestions :: "string list \<Rightarrow> DayLog \<Rightarrow> string list" where
  "mergeQuestions base l = base @ sort (collectExtras (Answers l) base [])"

fun indexQuestions :: "string list \<Rightarrow> int \<Rightarrow> (string \<rightharpoonup> int) \<Rightarrow> (string \<rightharpoonup> int)" where
  "indexQuestions [] i qi = qi"
| "indexQuestions (q # qs) i qi = indexQuestions qs (i + 1) (qi(q \<mapsto> i))"

definition rowsFor :: "bool \<Rightarrow> DayLog \<Rightarrow> string \<Rightarrow> listRow list" where
  "rowsFor lm l q =
     \<lparr>kind = rowQuestion, question = q, entryIndex = 0\<rparr> #
     (if lm
      then map (\<lambda>idx. \<lparr>kind = rowEntry, question = q, entryIndex = int idx\<rparr>)
             [0..<length (answersOf l q)]
      else [])"

definition rebuildRows :: "model \<Rightarrow> model" where
  "rebuildRows m = m\<lparr>rows := concat (map (rowsFor (listMode m) (log m)) (questions m))\<rparr>"

definition refreshQuestions :: "model \<Rightarrow> model" where
  "refreshQuestions m =
     (let qs = mergeQuestions (cfgQuestions m) (log m);
          m1 = rebuildRows
                 (m\<lparr>deleteConfirm := None, confirmPrompt := [], showDeletePrompt := False,
                    questions := qs, questionIndex := indexQuestions qs 0 Map.empty,
                    disableJKNav := (jkDisableThreshold \<le> length qs)\<rparr>)
      in if rows m1 = [] then m1\<lparr>selected := 0\<rparr>
         else if int (length (rows m1)) \<le> selected m1
              then m1\<lparr>selected := int (length (rows m1)) - 1\<rparr>
         else m1)"

text \<open>
  In \<open>toggleListMode\<close> the empty string stands for "no current row", as in the source.
\<close>

definition toggleListMode :: "model \<Rightarrow> model" where
  "toggleListMode m =
     (let currentQuestion = (case currentRow m of None \<Rightarrow> [] | Some row \<Rightarrow> question row);
          m1 = refreshQuestions (m\<lparr>listMode := \<not> listMode m\<rparr>)
      in if currentQuestion = [] then m1
         else (case questionIndex m1 currentQuestion of
                 None \<Rightarrow> m1
               | Some idx \<Rightarrow>
                   (let rowIdx = rowIndexForQuestion idx m1 in
                    if 0 \<le> rowIdx then m1\<lparr>selected := rowIdx\<rparr> else m1)))"

definition toggleHints :: "env \<Rightarrow> model \<Rightarrow> model" where
  "toggleHints e m =
     (let m1 = m\<lparr>showHints := \<not> showHints m\<rparr>;
          m2 = m1\<lparr>config := (config m1)\<lparr>ShowHints := Some (showHints m1)\<rparr>\<rparr>
      in case SaveConfig e (config m2) of
           Some er \<Rightarrow> m2\<lparr>err := Some er\<rparr>
         | None \<Rightarrow>
             (if showHints m2 then setStatus ''Hints enabled.'' (m2\<lparr>err := None\<rparr>)
              else setStatus ''Hints hidden.'' (m2\<lparr>err := None\<rparr>)))"

text \<open>The status text of \<open>reloadDay\<close> names the day; its formatting is left out.\<close>

definition reloadDay :: "env \<Rightarrow> model \<Rightarrow> model" where
  "reloadDay e m =
     (case LoadDayLog e (day m) of
        Inl er \<Rightarrow> m\<lparr>err := Some er\<rparr>
      | Inr l \<Rightarrow>
          setStatus ''Viewing day''
            (refreshQuestions
               (m\<lparr>err := None, log := l, view := viewList,
                  detail := (detail m)\<lparr>editing := False,
                              input := (input (detail m))\<lparr>tiFocused := False, tiValue := []\<rparr>\<rparr>,
                  selected := 0\<rparr>)))"

definition changeDay :: "env \<Rightarrow> int \<Rightarrow> model \<Rightarrow> model" where
  "changeDay e delta m = reloadDay e (m\<lparr>day := day m + delta\<rparr>)"

definition goToToday :: "env \<Rightarrow> model \<Rightarrow> model" where
  "goToToday e m = (if today e = day m then m else reloadDay e (m\<lparr>day := today e\<rparr>))"

definition refreshCurrentDayFromDisk :: "env \<Rightarrow> model \<Rightarrow> model" where
  "refreshCurrentDayFromDisk e m =
     (case LoadDayLog e (day m) of
        Inl er \<Rightarrow> m\<lparr>err := Some er\<rparr>
      | Inr l \<Rightarrow> refreshQuestions (m\<lparr>err := None, log := l\<rparr>))"

text \<open>
  \<open>append(entries[:idx], entries[idx+1:]...)\<close> is the list without position \<open>idx\<close>.
\<close>

definition removeAt :: "int \<Rightarrow> 'a list \<Rightarrow> 'a list" where
  "removeAt idx xs = take (nat idx) xs @ drop (nat idx + 1) xs"

definition performDeleteEntry :: "env \<Rightarrow> string \<Rightarrow> int \<Rightarrow> model \<Rightarrow> model" where
  "performDeleteEntry e q idx m =
     (let entries = answersOf (log m) q in
      if idx < 0 \<or> int (length entries) \<le> idx then setStatus ''Entry not found.'' m
      else
        (let entries1 = removeAt idx entries;
             l = (if entries1 = [] then deleteAnswers q (log m)
                  else setAnswers q entries1 (log m));
             m1 = m\<lparr>log := l, saveCalls := saveCalls m @ [(day m, l)]\<rparr>
         in case SaveDayLog e (day m) l of
              Some er \<Rightarrow> setStatus ''Failed to delete entry.'' (m1\<lparr>err := Some er\<rparr>)
            | None \<Rightarrow>
                selectQuestionByName q
                  (refreshQuestions
                     (setStatus ''Entry deleted.''
                        (m1\<lparr>err := None, confirmPrompt := [], showDeletePrompt := False\<rparr>)))))"

definition initiateEntryDelete :: "env \<Rightarrow> string \<Rightarrow> int \<Rightarrow> model \<Rightarrow> model" where
  "initiateEntryDelete e q idx m =
     (let entries = answersOf (log m) q in
      if idx < 0 \<or> int (length entries) \<le> idx then setStatus ''Entry not found.'' m
      else if confirmDelete m
      then m\<lparr>deleteConfirm := Some \<lparr>pendingQuestion = q, pendingIndex = idx\<rparr>,
             confirmPrompt := ''Delete this entry? (y/n)'', showDeletePrompt := True\<rparr>
      else performDeleteEntry e q idx m)"

definition handleDeleteEntryRequest :: "env \<Rightarrow> model \<Rightarrow> model" where
  "handleDeleteEntryRequest e m =
     (if listMode m
      then (case currentRow m of
              None \<Rightarrow> setStatus ''Select an entry to delete.'' m
            | Some row \<Rightarrow>
                (if kind row = rowEntry then initiateEntryDelete e (question row) (entryIndex row) m
                 else setStatus ''Select an entry to delete.'' m))
      else setStatus ''Enable list mode to delete entries.'' m)"

definition handleDeleteConfirmationKey :: "env \<Rightarrow> string \<Rightarrow> model \<Rightarrow> model \<times> bool" where
  "handleDeleteConfirmationKey e key m =
     (case deleteConfirm m of
        None \<Rightarrow> (m, False)
      | Some pending \<Rightarrow>
          (if key = ''y'' \<or> key = ''Y''
           then (performDeleteEntry e (pendingQuestion pending) (pendingIndex pending)
                   (m\<lparr>deleteConfirm := None, confirmPrompt := [], showDeletePrompt := False\<rparr>),
                 True)
           else if key = ''n'' \<or> key = ''N'' \<or> key = ''esc''
           then (setStatus ''Delete canceled.''
                   (m\<lparr>deleteConfirm := None, confirmPrompt := [], showDeletePrompt := False\<rparr>),
                 True)
           else (setStatus ''Confirm delete with y or n.'' m, True)))"

definition openDayJSON :: "env \<Rightarrow> model \<Rightarrow> model \<times> Cmd option" where
  "openDayJSON e m =
     (let m1 = m\<lparr>saveCalls := saveCalls m @ [(day m, log m)]\<rparr> in
      case SaveDayLog e (day m) (log m) of
        Some er \<Rightarrow> (m1\<lparr>err := Some er\<rparr>, None)
      | None \<Rightarrow>
          (case DayFilePath e (day m) of
             Inl er \<Rightarrow> (m1\<lparr>err := Some er\<rparr>, None)
           | Inr path \<Rightarrow>
               (setStatus ''Opened day file in editor.'' m1,
                Some (OpenFileInEditor path openKindDay))))"

definition startEditing :: "model \<Rightarrow> model" where
  "startEditing m =
     setStatus ''Adding entries...''
       (m\<lparr>detail := (detail m)\<lparr>editing := True,
                       input := (input (detail m))\<lparr>tiValue := [], tiFocused := True\<rparr>\<rparr>\<rparr>)"

definition openDetail :: "string \<Rightarrow> bool \<Rightarrow> model \<Rightarrow> model" where
  "openDetail q startNow m =
     (let m1 = m\<lparr>view := viewDetail, deleteConfirm := None, confirmPrompt := [],
                 showDeletePrompt := False, detail := (detail m)\<lparr>dQuestion := q\<rparr>\<rparr>
      in if startNow then startEditing m1
         else m1\<lparr>detail := (detail m1)\<lparr>editing := False,
                      input := (input (detail m1))\<lparr>tiFocused := False, tiValue := []\<rparr>\<rparr>\<rparr>)"

definition saveInlineEntry :: "env \<Rightarrow> model \<Rightarrow> model" where
  "saveInlineEntry e m =
     (let text = TrimSpace (tiValue (input (detail m))) in
      if text = [] then setStatus ''Entry discarded (empty).'' m
      else
        (let q = dQuestion (detail m);
             entry = \<lparr>Time = timeNow e 0, Response = text\<rparr>;
             l = setAnswers q (answersOf (log m) q @ [entry]) (log m);
             m1 = m\<lparr>log := l, saveCalls := saveCalls m @ [(day m, l)]\<rparr>
         in case SaveDayLog e (day m) l of
              Some er \<Rightarrow> m1\<lparr>err := Some er\<rparr>
            | None \<Rightarrow>
                refreshQuestions
                  (setStatus ''Entry saved.''
                     (m1\<lparr>err := None,
                         detail := (detail m1)\<lparr>input := (input (detail m1))\<lparr>tiValue := []\<rparr>\<rparr>\<rparr>))))"

definition openQuestionEditor :: "string \<Rightarrow> model \<Rightarrow> Cmd option" where
  "openQuestionEditor q m = Some (EditEntries q (responsesForQuestion (answersOf (log m) q)) (-1))"

definition openEntryEditor :: "string \<Rightarrow> int \<Rightarrow> model \<Rightarrow> Cmd option" where
  "openEntryEditor q idx m =
     (let entries = answersOf (log m) q in
      if idx < 0 \<or> int (length entries) \<le> idx then None
      else Some (EditEntries q [Response (entries ! nat idx)] idx))"

definition activateSelection :: "model \<Rightarrow> model \<times> Cmd option" where
  "activateSelection m =
     (case currentRow m of
        None \<Rightarrow> (m, None)
      | Some row \<Rightarrow>
          (if kind row = rowEntry then (m, openEntryEditor (question row) (entryIndex row) m)
           else (openDetail (question row) (autoInsert m) m, None)))"

definition handleDetailKey :: "env \<Rightarrow> string \<Rightarrow> model \<Rightarrow> model \<times> Cmd option" where
  "handleDetailKey e key m =
     (if key = ''esc''
      then (if editing (detail m)
            then (setStatus ''Insert canceled.''
                    (m\<lparr>detail := (detail m)\<lparr>editing := False,
                                    input := (input (detail m))\<lparr>tiFocused := False, tiValue := []\<rparr>\<rparr>\<rparr>),
                  None)
            else (m\<lparr>view := viewList, detail := (detail m)\<lparr>dQuestion := []\<rparr>\<rparr>, None))
      else if key = ''-''
      then (if editing (detail m) then (m, None)
            else (m\<lparr>view := viewList, detail := (detail m)\<lparr>dQuestion := []\<rparr>\<rparr>, None))
      else if key = ''enter''
      then (if editing (detail m) then (saveInlineEntry e m, None) else (startEditing m, None))
      else if key = ''i''
      then (if editing (detail m) then (m, None) else (startEditing m, None))
      else if key = ''e''
      then (if editing (detail m) then (m, None)
            else (m, openQuestionEditor (dQuestion (detail m)) m))
      else (m, None))"

text \<open>
  \<open>unicode.IsLetter\<close> and \<open>unicode.ToLower\<close> on the rune of a key of one byte. A byte
  above 0x7F alone decodes to U+FFFD, which is no letter and no index rune, as no byte
  is here.
\<close>

definition isLetter :: "char \<Rightarrow> bool" where
  "isLetter c = ((CHR ''A'' \<le> c \<and> c \<le> CHR ''Z'') \<or> (CHR ''a'' \<le> c \<and> c \<le> CHR ''z''))"

definition toLower :: "char \<Rightarrow> char" where
  "toLower c = (if CHR ''A'' \<le> c \<and> c \<le> CHR ''Z'' then char_of (of_char c + (32::nat)) else c)"

definition handleListKey :: "env \<Rightarrow> string \<Rightarrow> model \<Rightarrow> model \<times> Cmd option" where
  "handleListKey e key m =
     (if key = ''up'' then (moveSelection (-1) m, None)
      else if key = ''down'' then (moveSelection 1 m, None)
      else if key = ''j''
      then (if disableJKNav m then (fst (jumpToIndex (CHR ''j'') m), None)
            else (moveSelection 1 m, None))
      else if key = ''k''
      then (if disableJKNav m then (fst (jumpToIndex (CHR ''k'') m), None)
            else (moveSelection (-1) m, None))
      else if key = ''enter'' then activateSelection m
      else if key = ''i''
      then (case currentRow m of
              None \<Rightarrow> (m, None)
            | Some row \<Rightarrow> (openDetail (question row) True m, None))
      else if key = ''e''
      then (case currentRow m of
              None \<Rightarrow> (m, None)
            | Some row \<Rightarrow>
                (if kind row = rowEntry then (m, openEntryEditor (question row) (entryIndex row) m)
                 else (m, openQuestionEditor (question row) m)))
      else if key = ''d'' then (handleDeleteEntryRequest e m, None)
      else if key = ''l'' then (toggleListMode m, None)
      else if key = ''o'' then openDayJSON e m
      else (case key of
              [c] \<Rightarrow>
                (let r = (if isLetter c then toLower c else c) in
                 if (r = CHR ''j'' \<or> r = CHR ''k'') \<and> \<not> disableJKNav m then (m, None)
                 else (case jumpToIndex r m of
                         (m1, ok) \<Rightarrow>
                           if ok \<and> autoOpenIndex m1 then activateSelection m1 else (m1, None)))
            | _ \<Rightarrow> (m, None)))"

definition viewHandling :: "env \<Rightarrow> string \<Rightarrow> model \<Rightarrow> model \<times> Cmd option" where
  "viewHandling e key m =
     (case view m of
        viewList \<Rightarrow> handleListKey e key m
      | viewDetail \<Rightarrow> handleDetailKey e key m)"

definition handleKey :: "env \<Rightarrow> string \<Rightarrow> model \<Rightarrow> model \<times> Cmd option" where
  "handleKey e key m =
     (if view m = viewDetail \<and> editing (detail m)
      then (if key = ''ctrl+c'' then (m, Some Quit) else viewHandling e key m)
      else if key = ''ctrl+c'' \<or> key = ''q'' then (m, Some Quit)
      else
        (case (if view m = viewList \<and> deleteConfirm m \<noteq> None
               then handleDeleteConfirmationKey e key m else (m, False)) of
           (m1, True) \<Rightarrow> (m1, None)
         | (m1, False) \<Rightarrow>
             (if key = ''h'' \<or> key = ''?'' then (toggleHints e m1, None)
              else if key = ''esc'' \<and> view m1 = viewList \<and> \<not> showHints m1
              then (setStatus ''Hints temporarily shown.'' (m1\<lparr>showHints := True\<rparr>), None)
              else if key = ''left'' then (changeDay e (-1) m1, None)
              else if key = ''right'' then (changeDay e 1 m1, None)
              else if key = '' '' then (goToToday e m1, None)
              else viewHandling e key m1)))"

definition applyQuestionEdit :: "env \<Rightarrow> string \<Rightarrow> string list \<Rightarrow> model \<Rightarrow> model" where
  "applyQuestionEdit e q rs m =
     (let existing = answersOf (log m) q;
          updated = rebuildAnswers (timeNow e) existing rs;
          l = (if updated = [] then deleteAnswers q (log m) else setAnswers q updated (log m));
          m1 = m\<lparr>log := l, saveCalls := saveCalls m @ [(day m, l)]\<rparr>
      in case SaveDayLog e (day m) l of
           Some er \<Rightarrow> m1\<lparr>err := Some er\<rparr>
         | None \<Rightarrow> refreshQuestions (setStatus ''Entries updated.'' (m1\<lparr>err := None\<rparr>)))"

definition applySingleEntryEdit :: "env \<Rightarrow> string \<Rightarrow> int \<Rightarrow> string list \<Rightarrow> model \<Rightarrow> model" where
  "applySingleEntryEdit e q idx rs m =
     (let entries = answersOf (log m) q in
      if idx < 0 \<or> int (length entries) \<le> idx then m
      else
        (let entries1 =
               (case rs of
                  [] \<Rightarrow> removeAt idx entries
                | r # _ \<Rightarrow> entries[nat idx := (entries ! nat idx)\<lparr>Response := r\<rparr>]);
             l = (if entries1 = [] then deleteAnswers q (log m)
                  else setAnswers q entries1 (log m));
             m1 = m\<lparr>log := l, saveCalls := saveCalls m @ [(day m, l)]\<rparr>
         in case SaveDayLog e (day m) l of
              Some er \<Rightarrow> m1\<lparr>err := Some er\<rparr>
            | None \<Rightarrow> refreshQuestions (setStatus ''Entry updated.'' (m1\<lparr>err := None\<rparr>))))"

definition handleEditorResult :: "env \<Rightarrow> editorResultMsg \<Rightarrow> model \<Rightarrow> model" where
  "handleEditorResult e msg m =
     (case erErr msg of
        Some er \<Rightarrow> m\<lparr>err := Some er\<rparr>
      | None \<Rightarrow>
          (if changed msg
           then (if 0 \<le> erEntryIndex msg
                 then applySingleEntryEdit e (erQuestion msg) (erEntryIndex msg) (responses msg) m
                 else applyQuestionEdit e (erQuestion msg) (responses msg) m)
           else setStatus ''No changes saved.'' m))"

definition handleExternalOpenResult :: "env \<Rightarrow> externalOpenKind \<Rightarrow> error option \<Rightarrow> model \<Rightarrow> model" where
  "handleExternalOpenResult e k er m =
     (case er of
        Some x \<Rightarrow> m\<lparr>err := Some x\<rparr>
      | None \<Rightarrow>
          (case k of
             openKindDay \<Rightarrow>
               setStatus ''Day file reloaded.'' (refreshCurrentDayFromDisk e (m\<lparr>err := None\<rparr>))
           | openKindConfig \<Rightarrow> m\<lparr>err := None\<rparr>))"

text \<open>
  \<open>Update\<close> in its three stages: the text input sees the message first when a line is
  being edited, the message is dispatched on its type, and a status timer that was
  armed on the way is handed to the runtime.
\<close>

definition updateInput :: "env \<Rightarrow> Msg \<Rightarrow> model \<Rightarrow> model \<times> Cmd list" where
  "updateInput e msg m =
     (if view m = viewDetail \<and> editing (detail m)
      then (case textinputUpdate e msg (input (detail m)) of
              (ti, hasCmd) \<Rightarrow>
                (m\<lparr>detail := (detail m)\<lparr>input := ti\<rparr>\<rparr>, if hasCmd then [InputCmd] else []))
      else (m, []))"

definition dispatch :: "env \<Rightarrow> Msg \<Rightarrow> model \<Rightarrow> Cmd list \<Rightarrow> model \<times> Cmd list" where
  "dispatch e msg m0 cmds0 =
     (case msg of
        WindowSizeMsg w h \<Rightarrow>
          (m0\<lparr>width := w, height := h,
              detail := (detail m0)\<lparr>input := (input (detail m0))\<lparr>tiWidth := max 20 (w - 4)\<rparr>\<rparr>\<rparr>,
           cmds0)
      | KeyMsg key \<Rightarrow>
          (case handleKey e key m0 of
             (m', None) \<Rightarrow> (m', cmds0)
           | (m', Some c) \<Rightarrow> (m', cmds0 @ [c]))
      | EditorResultMsg r \<Rightarrow> (handleEditorResult e r m0, cmds0)
      | StatusTimeoutMsg s \<Rightarrow> (if s = statusSeq m0 then m0\<lparr>status := []\<rparr> else m0, cmds0)
      | ExternalOpenResultMsg k er \<Rightarrow> (handleExternalOpenResult e k er m0, cmds0)
      | OtherMsg \<Rightarrow> (m0, cmds0))"

definition flushStatusTimer :: "model \<Rightarrow> Cmd list \<Rightarrow> model \<times> Cmd list" where
  "flushStatusTimer m1 cmds1 =
     (case statusTimerCmd m1 of
        None \<Rightarrow> (m1, cmds1)
      | Some c \<Rightarrow> (m1\<lparr>statusTimerCmd := None\<rparr>, cmds1 @ [c]))"

definition Update :: "env \<Rightarrow> Msg \<Rightarrow> model \<Rightarrow> model \<times> Cmd list" where
  "Update e msg m =
     (case updateInput e msg m of
        (m0, cmds0) \<Rightarrow>
          (case dispatch e msg m0 cmds0 of
             (m1, cmds1) \<Rightarrow> flushStatusTimer m1 cmds1))"

text \<open>The struct literal of \<open>newModel\<close>, before its first refresh.\<close>

definition initialModel :: "Config \<Rightarrow> int \<Rightarrow> DayLog \<Rightarrow> model" where
  "initialModel cfg d l =
     \<lparr>cfgQuestions = Questions cfg, config = cfg, day = d, log = l,
      questions = [], questionIndex = Map.empty, rows = [], selected = 0,
      listMode = DefaultListModeEnabled cfg, disableJKNav = False,
      showHints = HintsEnabled cfg, autoInsert = AutoInsertEnabled cfg,
      autoOpenIndex = AutoOpenIndexJumpEnabled cfg,
      confirmDelete = ConfirmDeleteEnabled cfg, view = viewList,
      detail = \<lparr>dQuestion = [], editing = False,
                input = \<lparr>tiValue = [], tiFocused = False, tiWidth = 60\<rparr>\<rparr>,
      deleteConfirm = None, confirmPrompt = [], showDeletePrompt = False,
      status = [], statusSeq = 0,
      statusTimeout = wrapInt (StatusMessageDuration cfg * 1000000),
      statusTimerCmd = None, err = None, width = 0, height = 0,
      saveCalls = []\<rparr>"

definition newModel :: "env \<Rightarrow> Config \<Rightarrow> error + model" where
  "newModel e cfg =
     (case LoadDayLog e (today e) of
        Inl er \<Rightarrow> Inl er
      | Inr l \<Rightarrow> Inr (refreshQuestions (initialModel cfg (today e) l)))"

subsection \<open>What the editor command reports back (editor.go)\<close>

text \<open>
  One run of the command that \<open>editEntriesCmd\<close> builds: the error, if any, of creating
  the scratch file, of writing it, of finding the editor, of running it, and the
  content read back or the error of reading.
\<close>

record editorRun =
  createTempErr :: "error option"
  writeStringErr :: "error option"
  buildCommandErr :: "error option"
  execErr :: "error option"
  readFileResult :: "error + string"

definition editorFailed :: "string \<Rightarrow> int \<Rightarrow> error \<Rightarrow> editorResultMsg" where
  "editorFailed q idx er =
     \<lparr>erQuestion = q, erEntryIndex = idx, responses = [], changed = False, erErr = Some er\<rparr>"

definition editEntriesCmd :: "editorRun \<Rightarrow> string \<Rightarrow> string list \<Rightarrow> int \<Rightarrow> editorResultMsg" where
  "editEntriesCmd run q ls idx =
     (let original = joinLines ls in
      case createTempErr run of
        Some er \<Rightarrow> editorFailed q idx er
      | None \<Rightarrow>
          (case (if original = [] then None else writeStringErr run) of
             Some er \<Rightarrow> editorFailed q idx er
           | None \<Rightarrow>
               (case buildCommandErr run of
                  Some er \<Rightarrow> editorFailed q idx er
                | None \<Rightarrow>
                    (case execErr run of
                       Some er \<Rightarrow> editorFailed q idx er
                     | None \<Rightarrow>
                         (case readFileResult run of
                            Inl er \<Rightarrow> editorFailed q idx er
                          | Inr content \<Rightarrow>
                              (let newContent = normalizeEditorContent content;
                                   originalContent = normalizeEditorContent original
                               in if newContent = originalContent
                                  then \<lparr>erQuestion = q, erEntryIndex = idx, responses = ls,
                                        changed = False, erErr = None\<rparr>
                                  else if 0 \<le> idx
                                  then \<lparr>erQuestion = q, erEntryIndex = idx,
                                        responses = [newContent], changed = True, erErr = None\<rparr>
                                  else \<lparr>erQuestion = q, erEntryIndex = idx,
                                        responses = parseEditorLines newContent,
                                        changed = True, erErr = None\<rparr>))))))"

subsection \<open>Properties of records and of saving\<close>



subsection \<open>Rows and events\<close>

text \<open>The row of a question itself.\<close>

abbreviation header :: "string \<Rightarrow> listRow" where
  "header q \<equiv> \<lparr>kind = rowQuestion, question = q, entryIndex = 0\<rparr>"

text \<open>The rows are the ones \<open>rebuildRows\<close> computes from the present questions and record.\<close>

definition rowsInSync :: "model \<Rightarrow> bool" where
  "rowsInSync m = (rows m = concat (map (rowsFor (listMode m) (log m)) (questions m)))"

text \<open>The model after a sequence of events, each handled by \<open>Update\<close>.\<close>

fun runEvents :: "env \<Rightarrow> Msg list \<Rightarrow> model \<Rightarrow> model" where
  "runEvents e [] m = m"
| "runEvents e (msg # msgs) m = runEvents e msgs (fst (Update e msg m))"

subsection \<open>Sessions to run the model on\<close>

text \<open>
  A configuration with the given questions, list mode and confirmation flag, everything
  else left to its default; and a world in which the storage answers with the given
  record and the given result of saving.
\<close>

definition exampleConfig :: "string list \<Rightarrow> bool \<Rightarrow> bool \<Rightarrow> Config" where
  "exampleConfig qs lm confirm =
     \<lparr>Questions = qs, ShowHints = None, AutoInsertEntries = None,
      DefaultListMode = Some lm, AutoOpenIndexJump = Some False, ConfirmDelete = Some confirm,
      ContinueInsertAfterSave = None, ConfirmEscapeWithText = None,
      StatusMessageDurationMs = None, EscapeConfirmTimeoutMs = None\<rparr>"

definition exampleEnv :: "DayLog \<Rightarrow> error option \<Rightarrow> env" where
  "exampleEnv l saved =
     \<lparr>timeNow = (\<lambda>n. ''2024-05-01T12:00:00Z''), today = 0,
      SaveDayLog = (\<lambda>d x. saved), LoadDayLog = (\<lambda>d. Inr l),
      SaveConfig = (\<lambda>c. None), DayFilePath = (\<lambda>d. Inr ''day.json''),
      textinputUpdate = (\<lambda>msg ti. (ti, False))\<rparr>"

text \<open>Twenty-one questions, one more than the threshold needs.\<close>

definition manyQuestions :: "string list" where
  "manyQuestions =
     [''q00'', ''q01'', ''q02'', ''q03'', ''q04'', ''q05'', ''q06'', ''q07'', ''q08'', ''q09'',
      ''q10'', ''q11'', ''q12'', ''q13'', ''q14'', ''q15'', ''q16'', ''q17'', ''q18'', ''q19'',
      ''q20'']"

text \<open>A record with two entries for one question.\<close>

definition twoEntries :: DayLog where
  "twoEntries =
     \<lparr>Date = ''2024-05-01'',
      Answers = [(''Q1'', [\<lparr>Time = ''09:00'', Response = ''a''\<rparr>,
                          \<lparr>Time = ''10:00'', Response = ''b''\<rparr>])]\<rparr>"

text \<open>The model that \<open>newModel\<close> returns in such a world.\<close>

definition exampleSession :: "string list \<Rightarrow> bool \<Rightarrow> bool \<Rightarrow> DayLog \<Rightarrow> model" where
  "exampleSession qs lm confirm l = refreshQuestions (initialModel (exampleConfig qs lm confirm) 0 l)"

section \<open>Trimming\<close>

lemma leadingOf_None_iff:
  "leadingOf ws s = None \<longleftrightarrow> (\<forall>w\<in>set ws. w = [] \<or> take (length w) s \<noteq> w)"
  by (auto simp: leadingOf_def find_None_iff)

lemma stripLeading_fixed: "leadingOf ws s = None \<Longrightarrow> stripLeading ws s = s"
  by (simp add: stripLeading.simps)

lemma leadingOf_stripLeading: "leadingOf ws (stripLeading ws s) = None"
proof (induction ws s rule: stripLeading.induct)
  case (1 ws s)
  show ?case
  proof (cases "leadingOf ws s")
    case None
    then show ?thesis by (simp add: stripLeading_fixed)
  next
    case (Some w)
    with 1 show ?thesis by (simp add: stripLeading.simps [of ws s])
  qed
qed

lemma stripLeading_drop: "\<exists>n. stripLeading ws s = drop n s"
proof (induction ws s rule: stripLeading.induct)
  case (1 ws s)
  show ?case
  proof (cases "leadingOf ws s")
    case None
    then have "stripLeading ws s = drop 0 s" by (simp add: stripLeading_fixed)
    then show ?thesis by blast
  next
    case (Some w)
    with 1 obtain n where "stripLeading ws (drop (length w) s) = drop n (drop (length w) s)"
      by blast
    with Some have "stripLeading ws s = drop (n + length w) s"
      by (simp add: stripLeading.simps [of ws s] add.commute)
    then show ?thesis by blast
  qed
qed

lemma leadingOf_take: 
  assumes "leadingOf ws s = None"
  shows "leadingOf ws (take n s) = None"
proof -
  have "w = [] \<or> take (length w) (take n s) \<noteq> w" if "w \<in> set ws" for w
  proof (cases "w = []")
    case True then show ?thesis by simp
  next
    case False
    from assms that False have ne: "take (length w) s \<noteq> w"
      by (auto simp: leadingOf_None_iff)
    have "take (length w) (take n s) \<noteq> w"
    proof
      assume eq: "take (length w) (take n s) = w"
      then have "length (take (length w) (take n s)) = length w" by simp
      then have "length w \<le> n" by simp
      then have "take (length w) (take n s) = take (length w) s"
        by (simp add: min_def)
      with eq ne show False by simp
    qed
    then show ?thesis by simp
  qed
  then show ?thesis by (simp add: leadingOf_None_iff)
qed

lemma TrimSpace_idem: "TrimSpace (TrimSpace s) = TrimSpace s"
proof -
  define t where "t = stripLeading spaceEncodings s"
  define u where "u = TrimSpace s"
  obtain n where n: "stripLeading (map rev spaceEncodings) (rev t) = drop n (rev t)"
    using stripLeading_drop by blast
  have u: "u = rev (stripLeading (map rev spaceEncodings) (rev t))"
    by (simp add: u_def t_def TrimSpace_def)
  then have "u = take (length t - n) t"
    by (simp add: n rev_drop)
  moreover have "leadingOf spaceEncodings t = None"
    by (simp add: t_def leadingOf_stripLeading)
  ultimately have "leadingOf spaceEncodings u = None"
    by (simp add: leadingOf_take)
  then have front: "stripLeading spaceEncodings u = u"
    by (rule stripLeading_fixed)
  have "leadingOf (map rev spaceEncodings) (rev u) = None"
    by (simp add: u leadingOf_stripLeading)
  then have "stripLeading (map rev spaceEncodings) (rev u) = rev u"
    by (rule stripLeading_fixed)
  with front have "TrimSpace u = u"
    by (simp add: TrimSpace_def)
  then show ?thesis by (simp add: u_def)
qed

lemma buildPool_apply:
  "buildPool xs pool r = pool r @ map Time (filter (\<lambda>ans. Response ans = r) xs)"
  by (induction xs arbitrary: pool) auto

lemma parseEditorLines_trimmed: "\<forall>l\<in>set (parseEditorLines c). TrimSpace l = l \<and> l \<noteq> []"
  by (auto simp: parseEditorLines_def TrimSpace_idem)

lemma stripLeading_Some: "leadingOf ws s = Some w \<Longrightarrow> stripLeading ws s = stripLeading ws (drop (length w) s)"
  by (simp add: stripLeading.simps [of ws s])

section \<open>What the status line and the refresh leave alone\<close>

lemma status_frame [simp]:
  "log (setStatus t m) = log m"
  "saveCalls (setStatus t m) = saveCalls m"
  "day (setStatus t m) = day m"
  "err (setStatus t m) = err m"
  by (simp_all add: setStatus_def Let_def)

lemma refresh_frame [simp]:
  "log (refreshQuestions m) = log m"
  "saveCalls (refreshQuestions m) = saveCalls m"
  "day (refreshQuestions m) = day m"
  "err (refreshQuestions m) = err m"
  by (simp_all add: refreshQuestions_def rebuildRows_def Let_def)

lemma answersOf_setAnswers: "answersOf (setAnswers q v l) q = v"
  by (simp add: answersOf_def setAnswers_def update_conv')

lemma answersOf_deleteAnswers: "answersOf (deleteAnswers q l) q = []"
  by (simp add: answersOf_def deleteAnswers_def delete_conv')

lemma answersOf_applyQuestionEdit:
  "answersOf (log (applyQuestionEdit e q rs m)) q = rebuildAnswers (timeNow e) (answersOf (log m) q) rs"
  by (simp add: applyQuestionEdit_def Let_def answersOf_setAnswers answersOf_deleteAnswers
      split: option.split)

section \<open>Status messages\<close>

lemma wrapInt_id: "- (2 ^ 63) \<le> x \<Longrightarrow> x < 2 ^ 63 \<Longrightarrow> wrapInt x = x"
  by (simp add: wrapInt_def)

lemma status_fields:
  "status (setStatus t m) = t"
  "statusSeq (setStatus t m) = wrapInt (statusSeq m + 1)"
  "statusTimeout (setStatus t m) = statusTimeout m"
  by (simp_all add: setStatus_def Let_def)

lemma updateInput_form:
  "\<exists>ti c. updateInput e msg m = (m\<lparr>detail := (detail m)\<lparr>input := ti\<rparr>\<rparr>, c)"
proof (cases "view m = viewDetail \<and> editing (detail m)")
  case True
  obtain ti hasCmd where "textinputUpdate e msg (input (detail m)) = (ti, hasCmd)"
    by (cases "textinputUpdate e msg (input (detail m))")
  with True have "updateInput e msg m =
      (m\<lparr>detail := (detail m)\<lparr>input := ti\<rparr>\<rparr>, if hasCmd then [InputCmd] else [])"
    by (simp add: updateInput_def)
  then show ?thesis by blast
next
  case False
  then have "updateInput e msg m = (m, [])"
    by (auto simp: updateInput_def)
  then have "updateInput e msg m =
      (m\<lparr>detail := (detail m)\<lparr>input := input (detail m)\<rparr>\<rparr>, [])"
    by simp
  then show ?thesis by blast
qed

lemma flush_fields [simp]:
  "status (fst (flushStatusTimer m c)) = status m"
  "statusSeq (fst (flushStatusTimer m c)) = statusSeq m"
  "log (fst (flushStatusTimer m c)) = log m"
  "saveCalls (fst (flushStatusTimer m c)) = saveCalls m"
  "err (fst (flushStatusTimer m c)) = err m"
  "rows (fst (flushStatusTimer m c)) = rows m"
  "selected (fst (flushStatusTimer m c)) = selected m"
  "deleteConfirm (fst (flushStatusTimer m c)) = deleteConfirm m"
  by (simp_all add: flushStatusTimer_def split: option.split)

lemma Update_timeout_status:
  "status (fst (Update e (StatusTimeoutMsg s) m)) = (if s = statusSeq m then [] else status m)"
proof -
  obtain ti c where u: "updateInput e (StatusTimeoutMsg s) m = (m\<lparr>detail := (detail m)\<lparr>input := ti\<rparr>\<rparr>, c)"
    using updateInput_form by blast
  show ?thesis
    by (simp add: Update_def u dispatch_def)
qed

section \<open>Failures of the external editor\<close>

lemma editEntriesCmd_failure:
  assumes "createTempErr run \<noteq> None \<or> (joinLines ls \<noteq> [] \<and> writeStringErr run \<noteq> None)
      \<or> buildCommandErr run \<noteq> None \<or> execErr run \<noteq> None \<or> isl (readFileResult run)"
  shows "\<exists>er. editEntriesCmd run q ls idx = editorFailed q idx er"
proof (cases "createTempErr run")
  case (Some er)
  then have "editEntriesCmd run q ls idx = editorFailed q idx er"
    by (simp add: editEntriesCmd_def)
  then show ?thesis by blast
next
  case c: None
  show ?thesis
  proof (cases "if joinLines ls = [] then None else writeStringErr run")
    case (Some er)
    with c have "editEntriesCmd run q ls idx = editorFailed q idx er"
      by (simp add: editEntriesCmd_def)
    then show ?thesis by blast
  next
    case w: None
    show ?thesis
    proof (cases "buildCommandErr run")
      case (Some er)
      with c w have "editEntriesCmd run q ls idx = editorFailed q idx er"
      by (simp add: editEntriesCmd_def)
    then show ?thesis by blast
    next
      case b: None
      show ?thesis
      proof (cases "execErr run")
        case (Some er)
        with c w b have "editEntriesCmd run q ls idx = editorFailed q idx er"
      by (simp add: editEntriesCmd_def)
    then show ?thesis by blast
      next
        case x: None
        from assms c w b x obtain er where "readFileResult run = Inl er"
          by (auto simp: isl_def split: if_splits)
        with c w b x have "editEntriesCmd run q ls idx = editorFailed q idx er"
      by (simp add: editEntriesCmd_def)
    then show ?thesis by blast
      qed
    qed
  qed
qed

lemma dispatch_editor_failed:
  "dispatch e (EditorResultMsg (editorFailed q idx er)) m c = (m\<lparr>err := Some er\<rparr>, c)"
  by (simp add: dispatch_def handleEditorResult_def editorFailed_def)

text \<open>
  Claim C9. When the scratch file cannot be created, written or read back, or the editor
  cannot be found or run, the command reports the error; handling that report stores
  the error in the model and leaves the record as it was: no entry is added, changed or
  deleted, and \<open>app.SaveDayLog\<close> is not called.
\<close>

theorem editor_failure_leaves_record:
  assumes "createTempErr run \<noteq> None \<or> (joinLines ls \<noteq> [] \<and> writeStringErr run \<noteq> None)
      \<or> buildCommandErr run \<noteq> None \<or> execErr run \<noteq> None \<or> isl (readFileResult run)"
  shows "\<exists>er. erErr (editEntriesCmd run q ls idx) = Some er
      \<and> err (fst (Update e (EditorResultMsg (editEntriesCmd run q ls idx)) m)) = Some er
      \<and> log (fst (Update e (EditorResultMsg (editEntriesCmd run q ls idx)) m)) = log m
      \<and> saveCalls (fst (Update e (EditorResultMsg (editEntriesCmd run q ls idx)) m)) = saveCalls m"
proof -
  obtain er where f: "editEntriesCmd run q ls idx = editorFailed q idx er"
    using editEntriesCmd_failure [OF assms] by blast
  obtain ti c where u: "updateInput e (EditorResultMsg (editorFailed q idx er)) m =
      (m\<lparr>detail := (detail m)\<lparr>input := ti\<rparr>\<rparr>, c)"
    using updateInput_form by blast
  have "erErr (editorFailed q idx er) = Some er"
    by (simp add: editorFailed_def)
  then show ?thesis
    unfolding f Update_def u by (simp add: dispatch_editor_failed)
qed


theorem editor_failure_leaves_record_witness:
  "createTempErr \<lparr>createTempErr = Some ''no space left'', writeStringErr = None,
       buildCommandErr = None, execErr = None, readFileResult = Inr []\<rparr> \<noteq> None
   \<and> (\<exists>er.
       err (fst (Update (exampleEnv \<lparr>Date = [], Answers = []\<rparr> None)
          (EditorResultMsg
             (editEntriesCmd
                \<lparr>createTempErr = Some ''no space left'', writeStringErr = None,
                 buildCommandErr = None, execErr = None, readFileResult = Inr []\<rparr>
                ''Q1'' [''a''] 0))
          (exampleSession [''Q1''] True True
             \<lparr>Date = [], Answers = [(''Q1'', [\<lparr>Time = ''09:00'', Response = ''a''\<rparr>])]\<rparr>))) = Some er
     \<and> log (fst (Update (exampleEnv \<lparr>Date = [], Answers = []\<rparr> None)
          (EditorResultMsg
             (editEntriesCmd
                \<lparr>createTempErr = Some ''no space left'', writeStringErr = None,
                 buildCommandErr = None, execErr = None, readFileResult = Inr []\<rparr>
                ''Q1'' [''a''] 0))
          (exampleSession [''Q1''] True True
             \<lparr>Date = [], Answers = [(''Q1'', [\<lparr>Time = ''09:00'', Response = ''a''\<rparr>])]\<rparr>))) =
        log (exampleSession [''Q1''] True True
             \<lparr>Date = [], Answers = [(''Q1'', [\<lparr>Time = ''09:00'', Response = ''a''\<rparr>])]\<rparr>))"
  using editor_failure_leaves_record
    [of "\<lparr>createTempErr = Some ''no space left'', writeStringErr = None,
         buildCommandErr = None, execErr = None, readFileResult = Inr []\<rparr>"
        "[''a'']" "''Q1''" 0 "exampleEnv \<lparr>Date = [], Answers = []\<rparr> None"
        "exampleSession [''Q1''] True True
           \<lparr>Date = [], Answers = [(''Q1'', [\<lparr>Time = ''09:00'', Response = ''a''\<rparr>])]\<rparr>"]
  by auto

section \<open>Questions left without entries\<close>

lemma exampleSession_fields [simp]:
  "log (exampleSession qs lm confirm l) = l"
  "day (exampleSession qs lm confirm l) = 0"
  "saveCalls (exampleSession qs lm confirm l) = []"
  by (simp_all add: exampleSession_def initialModel_def)

lemma map_of_setAnswers: "map_of (Answers (setAnswers q v l)) = (map_of (Answers l))(q \<mapsto> v)"
  by (simp add: setAnswers_def update_conv')

lemma map_of_deleteAnswers: "map_of (Answers (deleteAnswers q l)) = (map_of (Answers l))(q := None)"
  by (simp add: deleteAnswers_def delete_conv')




lemma answersOf_other_set: "k \<noteq> q \<Longrightarrow> answersOf (setAnswers q v l) k = answersOf l k"
  by (simp add: answersOf_def map_of_setAnswers)

lemma answersOf_other_delete: "k \<noteq> q \<Longrightarrow> answersOf (deleteAnswers q l) k = answersOf l k"
  by (simp add: answersOf_def map_of_deleteAnswers)

lemma performDeleteEntry_log:
  assumes "0 \<le> idx" "idx < int (length (answersOf (log m) q))"
  shows "log (performDeleteEntry e q idx m) =
      (if removeAt idx (answersOf (log m) q) = [] then deleteAnswers q (log m)
       else setAnswers q (removeAt idx (answersOf (log m) q)) (log m))"
    and "saveCalls (performDeleteEntry e q idx m) =
      saveCalls m @ [(day m, log (performDeleteEntry e q idx m))]"
  using assms
  by (simp_all add: performDeleteEntry_def Let_def selectQuestionByName_def
      selectQuestionByIndex_def split: option.split)










section \<open>Single-entry edits\<close>

lemmas eval_defs =
  exampleSession_def exampleEnv_def exampleConfig_def initialModel_def refreshQuestions_def
  rebuildRows_def rowsFor_def mergeQuestions_def answersOf_def setAnswers_def deleteAnswers_def
  HintsEnabled_def AutoInsertEnabled_def DefaultListModeEnabled_def AutoOpenIndexJumpEnabled_def
  ConfirmDeleteEnabled_def StatusMessageDuration_def wrapInt_def jkDisableThreshold_def
  setStatus_def Let_def

lemma norm_empty: "normalizeEditorContent [] = []" "normalizeEditorContent ''a'' = ''a''"
  by (simp_all add: normalizeEditorContent_def trimRightLF_def)

lemma cmd_empty:
  "editEntriesCmd \<lparr>createTempErr = None, writeStringErr = None, buildCommandErr = None,
       execErr = None, readFileResult = Inr []\<rparr> ''Q1'' [''a''] 0 =
   \<lparr>erQuestion = ''Q1'', erEntryIndex = 0, responses = [ [] ], changed = True, erErr = None\<rparr>"
  by (simp add: editEntriesCmd_def norm_empty)

text \<open>
  Claim C1 asks that an entry whose edited content is empty be deleted. The command
  built by \<open>editEntriesCmd\<close> always reports one response for a single-entry edit, the
  empty string included, so the deleting branch of \<open>applySingleEntryEdit\<close> is never
  taken: for the only entry "a" of Q1 and an editor that leaves the file empty, the
  entry stays, with its timestamp and the empty text, and that record is saved.
\<close>

theorem single_entry_edit_empty_keeps_entry:
  "answersOf (log (fst (Update (exampleEnv \<lparr>Date = [], Answers = []\<rparr> None)
      (EditorResultMsg
         (editEntriesCmd \<lparr>createTempErr = None, writeStringErr = None, buildCommandErr = None,
             execErr = None, readFileResult = Inr []\<rparr> ''Q1'' [''a''] 0))
      (exampleSession [''Q1''] True True
         \<lparr>Date = [], Answers = [(''Q1'', [\<lparr>Time = ''09:00'', Response = ''a''\<rparr>])]\<rparr>)))) ''Q1''
   = [\<lparr>Time = ''09:00'', Response = []\<rparr>]"
  unfolding cmd_empty
  by (simp add: Update_def updateInput_def dispatch_def handleEditorResult_def
      applySingleEntryEdit_def flushStatusTimer_def eval_defs)

section \<open>The keys j and k in the list view\<close>

lemma runeToIndex_jk: "runeToIndex (CHR ''j'') = Some 19" "runeToIndex (CHR ''k'') = Some 20"
  by (simp_all add: runeToIndex_def indexRunes_def)

lemma rowOffsetLoop_nonneg:
  "0 \<le> offset \<Longrightarrow> i \<le> idx \<Longrightarrow> idx < i + int (length qs) \<Longrightarrow>
   offset \<le> rowOffsetLoop l qs i idx offset"
proof (induction qs arbitrary: i offset)
  case Nil
  then show ?case by simp
next
  case (Cons q qs)
  show ?case
  proof (cases "i = idx")
    case True
    then show ?thesis by simp
  next
    case False
    with Cons.prems have "offset + 1 + int (length (answersOf l q))
        \<le> rowOffsetLoop l qs (i + 1) idx (offset + 1 + int (length (answersOf l q)))"
      by (intro Cons.IH) simp_all
    with False show ?thesis by simp
  qed
qed

lemma rowIndexForQuestion_nonneg:
  "0 \<le> idx \<Longrightarrow> idx < int (length (questions m)) \<Longrightarrow> 0 \<le> rowIndexForQuestion idx m"
  using rowOffsetLoop_nonneg [of 0 0 idx "questions m" "log m"]
  by (simp add: rowIndexForQuestion_def)

lemma jumpToIndex_in_range:
  assumes "runeToIndex r = Some idx" "0 \<le> idx" "idx < int (length (questions m))"
  shows "jumpToIndex r m = (m\<lparr>selected := rowIndexForQuestion idx m\<rparr>, True)"
  using assms rowIndexForQuestion_nonneg [of idx m]
  by (simp add: jumpToIndex_def Let_def)

lemma jumpToIndex_out_of_range:
  assumes "runeToIndex r = Some idx" "int (length (questions m)) \<le> idx"
  shows "jumpToIndex r m = (m, False)"
  using assms by (simp add: jumpToIndex_def)

lemma refresh_threshold:
  "disableJKNav (refreshQuestions m) = (20 \<le> length (questions (refreshQuestions m)))"
  "deleteConfirm (refreshQuestions m) = None"
  "view (refreshQuestions m) = view m"
  "detail (refreshQuestions m) = detail m"
  by (simp_all add: refreshQuestions_def rebuildRows_def Let_def jkDisableThreshold_def)

lemma handleKey_list_jk:
  assumes "view m = viewList" "deleteConfirm m = None" "key = ''j'' \<or> key = ''k''"
  shows "handleKey e key m = handleListKey e key m"
  using assms by (auto simp: handleKey_def viewHandling_def)

lemma exampleSession_empty_log:
  "questions (exampleSession qs lm confirm \<lparr>Date = d, Answers = []\<rparr>) = qs"
  "listMode (exampleSession qs lm confirm l) = lm"
  "view (exampleSession qs lm confirm l) = viewList"
  "cfgQuestions (exampleSession qs lm confirm l) = qs"
  "length (rows (exampleSession qs False confirm \<lparr>Date = d, Answers = []\<rparr>)) = length qs"
  by (simp_all add: exampleSession_def refreshQuestions_def rebuildRows_def mergeQuestions_def
      Let_def initialModel_def exampleConfig_def DefaultListModeEnabled_def rowsFor_def
      length_concat o_def sum_list_triv)

lemma exampleSession_selected:
  "selected (exampleSession qs lm confirm l) = 0"
  by (simp add: exampleSession_def refreshQuestions_def rebuildRows_def Let_def initialModel_def)

lemma length_manyQuestions: "length manyQuestions = 21"
  by (simp add: manyQuestions_def)

lemma many_j:
  "fst (handleKey e ''j'' (exampleSession manyQuestions False True \<lparr>Date = [], Answers = []\<rparr>)) =
   (exampleSession manyQuestions False True \<lparr>Date = [], Answers = []\<rparr>)\<lparr>selected := 19\<rparr>"
proof -
  let ?m = "exampleSession manyQuestions False True \<lparr>Date = [], Answers = []\<rparr>"
  have q: "length (questions ?m) = 21"
    by (simp add: exampleSession_empty_log length_manyQuestions)
  have r: "rowIndexForQuestion 19 ?m = 19"
    by (simp add: rowIndexForQuestion_def exampleSession_empty_log length_manyQuestions)
  have "?m = refreshQuestions (initialModel (exampleConfig manyQuestions False True) 0 \<lparr>Date = [], Answers = []\<rparr>)"
    by (simp add: exampleSession_def)
  then have t: "disableJKNav ?m" and d: "deleteConfirm ?m = None"
    using q by (simp_all add: refresh_threshold)
  have j: "jumpToIndex (CHR ''j'') ?m = (?m\<lparr>selected := rowIndexForQuestion 19 ?m\<rparr>, True)"
    using q by (intro jumpToIndex_in_range) (simp_all add: runeToIndex_jk)
  have "handleKey e ''j'' ?m = handleListKey e ''j'' ?m"
    using d by (simp add: handleKey_list_jk exampleSession_empty_log)
  then show ?thesis
    using t j r by (simp add: handleListKey_def)
qed

text \<open>
  Claim C2, amended. After a refresh, in the list view: when the question set has at
  least 20 questions, \<open>j\<close> selects the row of question 19 and \<open>k\<close> the row of
  question 20 (\<open>k\<close> does nothing when there are exactly 20), and neither moves the cursor
  by one; when it has fewer than 20, \<open>j\<close> moves the selection down by one and \<open>k\<close> up
  by one, and neither jumps.
\<close>

theorem jk_jump_at_threshold:
  assumes "view m0 = viewList" and "m = refreshQuestions m0"
  shows "(20 \<le> length (questions m) \<longrightarrow>
            fst (handleKey e ''j'' m) = m\<lparr>selected := rowIndexForQuestion 19 m\<rparr>
          \<and> fst (handleKey e ''k'' m) =
              (if 21 \<le> length (questions m) then m\<lparr>selected := rowIndexForQuestion 20 m\<rparr> else m))
       \<and> (length (questions m) < 20 \<longrightarrow>
            fst (handleKey e ''j'' m) = moveSelection 1 m
          \<and> fst (handleKey e ''k'' m) = moveSelection (- 1) m)"
proof -
  have v: "view m = viewList" and d: "deleteConfirm m = None"
    and t: "disableJKNav m = (20 \<le> length (questions m))"
    using assms by (simp_all add: refresh_threshold)
  have hj: "handleKey e ''j'' m = handleListKey e ''j'' m"
    and hk: "handleKey e ''k'' m = handleListKey e ''k'' m"
    using v d by (simp_all add: handleKey_list_jk)
  have big: "fst (handleListKey e ''j'' m) = m\<lparr>selected := rowIndexForQuestion 19 m\<rparr>
      \<and> fst (handleListKey e ''k'' m) =
          (if 21 \<le> length (questions m) then m\<lparr>selected := rowIndexForQuestion 20 m\<rparr> else m)"
    if "20 \<le> length (questions m)"
  proof -
    from that have j: "jumpToIndex (CHR ''j'') m = (m\<lparr>selected := rowIndexForQuestion 19 m\<rparr>, True)"
      by (intro jumpToIndex_in_range) (simp_all add: runeToIndex_jk)
    have k1: "jumpToIndex (CHR ''k'') m = (m\<lparr>selected := rowIndexForQuestion 20 m\<rparr>, True)"
      if "21 \<le> length (questions m)"
      using that by (intro jumpToIndex_in_range) (simp_all add: runeToIndex_jk)
    have k2: "jumpToIndex (CHR ''k'') m = (m, False)" if "\<not> 21 \<le> length (questions m)"
      using that by (intro jumpToIndex_out_of_range [where idx = 20]) (simp_all add: runeToIndex_jk)
    from that t j k1 k2 show ?thesis
      by (simp add: handleListKey_def)
  qed
  have small: "fst (handleListKey e ''j'' m) = moveSelection 1 m
      \<and> fst (handleListKey e ''k'' m) = moveSelection (- 1) m"
    if "length (questions m) < 20"
    using that t by (simp add: handleListKey_def)
  from big small show ?thesis
    by (simp add: hj hk)
qed


theorem jk_jump_at_threshold_witness:
  "view (initialModel (exampleConfig manyQuestions False True) 0 \<lparr>Date = [], Answers = []\<rparr>) = viewList
   \<and> 20 \<le> length (questions (exampleSession manyQuestions False True \<lparr>Date = [], Answers = []\<rparr>))
   \<and> selected (fst (handleKey (exampleEnv \<lparr>Date = [], Answers = []\<rparr> None) ''j''
        (exampleSession manyQuestions False True \<lparr>Date = [], Answers = []\<rparr>))) = 19"
proof -
  let ?i = "initialModel (exampleConfig manyQuestions False True) 0 \<lparr>Date = [], Answers = []\<rparr>"
  let ?m = "exampleSession manyQuestions False True \<lparr>Date = [], Answers = []\<rparr>"
  have v: "view ?i = viewList"
    by (simp add: initialModel_def)
  have m: "?m = refreshQuestions ?i"
    by (simp add: exampleSession_def)
  have q: "length (questions ?m) = 21"
    by (simp add: exampleSession_empty_log length_manyQuestions)
  have r: "rowIndexForQuestion 19 ?m = 19"
    by (simp add: rowIndexForQuestion_def exampleSession_empty_log length_manyQuestions)
  show ?thesis
    using jk_jump_at_threshold [OF v m, of "exampleEnv \<lparr>Date = [], Answers = []\<rparr> None"] q r v
    by simp
qed

text \<open>
  Claim C2 as stated has \<open>j\<close> move the cursor when more than 20 questions are
  configured. With 21 questions and the cursor on row 0, \<open>j\<close> selects row 19, where
  moving the cursor would select row 1.
\<close>

theorem jk_navigation_counterexample:
  "length (cfgQuestions (exampleSession manyQuestions False True \<lparr>Date = [], Answers = []\<rparr>)) = 21
   \<and> selected (fst (handleKey (exampleEnv \<lparr>Date = [], Answers = []\<rparr> None) ''j''
        (exampleSession manyQuestions False True \<lparr>Date = [], Answers = []\<rparr>))) = 19
   \<and> selected (moveSelection 1
        (exampleSession manyQuestions False True \<lparr>Date = [], Answers = []\<rparr>)) = 1"
proof -
  let ?m = "exampleSession manyQuestions False True \<lparr>Date = [], Answers = []\<rparr>"
  have l: "length (rows ?m) = 21"
    by (simp add: exampleSession_empty_log length_manyQuestions)
  then have "rows ?m \<noteq> []"
    by auto
  with l have "selected (moveSelection 1 ?m) = 1"
    by (simp add: moveSelection_def Let_def exampleSession_selected wrapInt_def)
  then show ?thesis
    by (simp add: many_j exampleSession_empty_log length_manyQuestions)
qed


section \<open>Deleting an entry with confirmation\<close>

lemma status_frame2 [simp]:
  "deleteConfirm (setStatus t m) = deleteConfirm m"
  "view (setStatus t m) = view m"
  "rows (setStatus t m) = rows m"
  "selected (setStatus t m) = selected m"
  "listMode (setStatus t m) = listMode m"
  "questions (setStatus t m) = questions m"
  "questionIndex (setStatus t m) = questionIndex m"
  "cfgQuestions (setStatus t m) = cfgQuestions m"
  by (simp_all add: setStatus_def Let_def)

lemma handleKey_delete_request:
  assumes "view m = viewList" "deleteConfirm m = None" "listMode m" "confirmDelete m"
    and "currentRow m = Some row" "kind row = rowEntry"
    and "0 \<le> entryIndex row" "entryIndex row < int (length (answersOf (log m) (question row)))"
  shows "handleKey e ''d'' m =
     (m\<lparr>deleteConfirm := Some \<lparr>pendingQuestion = question row, pendingIndex = entryIndex row\<rparr>,
        confirmPrompt := ''Delete this entry? (y/n)'', showDeletePrompt := True\<rparr>, None)"
  using assms
  by (simp add: handleKey_def viewHandling_def handleListKey_def handleDeleteEntryRequest_def
      initiateEntryDelete_def)

lemma handleKey_pending_yes:
  assumes "view m = viewList" "deleteConfirm m = Some p" "key = ''y'' \<or> key = ''Y''"
  shows "handleKey e key m =
     (performDeleteEntry e (pendingQuestion p) (pendingIndex p)
        (m\<lparr>deleteConfirm := None, confirmPrompt := [], showDeletePrompt := False\<rparr>), None)"
  using assms by (auto simp: handleKey_def handleDeleteConfirmationKey_def)

lemma handleKey_pending_no:
  assumes "view m = viewList" "deleteConfirm m = Some p"
    and "key = ''n'' \<or> key = ''N'' \<or> key = ''esc''"
  shows "handleKey e key m =
     (setStatus ''Delete canceled.''
        (m\<lparr>deleteConfirm := None, confirmPrompt := [], showDeletePrompt := False\<rparr>), None)"
  using assms by (auto simp: handleKey_def handleDeleteConfirmationKey_def)

lemma handleKey_pending_other:
  assumes "view m = viewList" "deleteConfirm m = Some p"
    and "key \<notin> {''y'', ''Y'', ''n'', ''N'', ''esc'', ''q'', ''ctrl+c''}"
  shows "handleKey e key m = (setStatus ''Confirm delete with y or n.'' m, None)"
  using assms by (simp add: handleKey_def handleDeleteConfirmationKey_def)

text \<open>
  Claim C3, amended. With the confirmation flag set, a delete request on an entry row of
  the list view (list mode on) stores the pending deletion and leaves the record and
  the storage alone. While a deletion is pending, \<open>y\<close> or \<open>Y\<close> removes exactly that
  entry, leaves the other questions as they are and saves the record; \<open>n\<close>, \<open>N\<close> or
  escape drops the pending deletion without touching the record; every other key, leaving
  aside \<open>q\<close> and ctrl+c which quit, keeps the deletion pending and the record untouched.
\<close>

theorem delete_confirmation_flow:
  assumes "view m = viewList" and "deleteConfirm m = Some p"
    and "0 \<le> pendingIndex p"
    and "pendingIndex p < int (length (answersOf (log m) (pendingQuestion p)))"
  shows "(key = ''y'' \<or> key = ''Y'' \<longrightarrow>
           answersOf (log (fst (handleKey e key m))) (pendingQuestion p) =
             removeAt (pendingIndex p) (answersOf (log m) (pendingQuestion p))
         \<and> length (answersOf (log (fst (handleKey e key m))) (pendingQuestion p)) + 1 =
             length (answersOf (log m) (pendingQuestion p))
         \<and> (\<forall>k. k \<noteq> pendingQuestion p \<longrightarrow>
               answersOf (log (fst (handleKey e key m))) k = answersOf (log m) k)
         \<and> saveCalls (fst (handleKey e key m)) =
             saveCalls m @ [(day m, log (fst (handleKey e key m)))])
       \<and> (key = ''n'' \<or> key = ''N'' \<or> key = ''esc'' \<longrightarrow>
           deleteConfirm (fst (handleKey e key m)) = None
         \<and> log (fst (handleKey e key m)) = log m
         \<and> saveCalls (fst (handleKey e key m)) = saveCalls m)
       \<and> (key \<notin> {''y'', ''Y'', ''n'', ''N'', ''esc'', ''q'', ''ctrl+c''} \<longrightarrow>
           deleteConfirm (fst (handleKey e key m)) = Some p
         \<and> log (fst (handleKey e key m)) = log m
         \<and> saveCalls (fst (handleKey e key m)) = saveCalls m)
       \<and> (\<forall>m0 row. view m0 = viewList \<and> deleteConfirm m0 = None \<and> listMode m0 \<and> confirmDelete m0
             \<and> currentRow m0 = Some row \<and> kind row = rowEntry \<and> 0 \<le> entryIndex row
             \<and> entryIndex row < int (length (answersOf (log m0) (question row))) \<longrightarrow>
           deleteConfirm (fst (handleKey e ''d'' m0)) =
             Some \<lparr>pendingQuestion = question row, pendingIndex = entryIndex row\<rparr>
         \<and> log (fst (handleKey e ''d'' m0)) = log m0
         \<and> saveCalls (fst (handleKey e ''d'' m0)) = saveCalls m0)"
proof (intro conjI impI allI)
  let ?q = "pendingQuestion p" and ?i = "pendingIndex p"
  let ?m2 = "m\<lparr>deleteConfirm := None, confirmPrompt := [], showDeletePrompt := False\<rparr>"
  have r: "0 \<le> ?i" "?i < int (length (answersOf (log ?m2) ?q))"
    using assms(3,4) by simp_all
  have l: "log (performDeleteEntry e ?q ?i ?m2) =
      (if removeAt ?i (answersOf (log m) ?q) = [] then deleteAnswers ?q (log m)
       else setAnswers ?q (removeAt ?i (answersOf (log m) ?q)) (log m))"
    using performDeleteEntry_log(1) [OF r] by simp
  have s: "saveCalls (performDeleteEntry e ?q ?i ?m2) =
      saveCalls m @ [(day m, log (performDeleteEntry e ?q ?i ?m2))]"
    using performDeleteEntry_log(2) [OF r] by simp
  {
    assume y: "key = ''y'' \<or> key = ''Y''"
    have h: "fst (handleKey e key m) = performDeleteEntry e ?q ?i ?m2"
      by (simp add: handleKey_pending_yes [OF assms(1,2) y])
    show a: "answersOf (log (fst (handleKey e key m))) ?q = removeAt ?i (answersOf (log m) ?q)"
      by (simp add: h l answersOf_setAnswers answersOf_deleteAnswers)
    show "length (answersOf (log (fst (handleKey e key m))) ?q) + 1 = length (answersOf (log m) ?q)"
      using assms(3,4) unfolding a by (simp add: removeAt_def)
    show "saveCalls (fst (handleKey e key m)) = saveCalls m @ [(day m, log (fst (handleKey e key m)))]"
      using s by (simp add: h)
    fix k assume "k \<noteq> ?q"
    then show "answersOf (log (fst (handleKey e key m))) k = answersOf (log m) k"
      by (simp add: h l answersOf_other_set answersOf_other_delete)
  }
  {
    assume n: "key = ''n'' \<or> key = ''N'' \<or> key = ''esc''"
    show "deleteConfirm (fst (handleKey e key m)) = None"
      "log (fst (handleKey e key m)) = log m"
      "saveCalls (fst (handleKey e key m)) = saveCalls m"
      by (simp_all add: handleKey_pending_no [OF assms(1,2) n])
  }
  {
    assume o: "key \<notin> {''y'', ''Y'', ''n'', ''N'', ''esc'', ''q'', ''ctrl+c''}"
    show "deleteConfirm (fst (handleKey e key m)) = Some p"
      "log (fst (handleKey e key m)) = log m"
      "saveCalls (fst (handleKey e key m)) = saveCalls m"
      by (simp_all add: handleKey_pending_other [OF assms(1,2) o] assms(2))
  }
  {
    fix m0 row
    assume c: "view m0 = viewList \<and> deleteConfirm m0 = None \<and> listMode m0 \<and> confirmDelete m0
        \<and> currentRow m0 = Some row \<and> kind row = rowEntry \<and> 0 \<le> entryIndex row
        \<and> entryIndex row < int (length (answersOf (log m0) (question row)))"
    then have h: "handleKey e ''d'' m0 =
       (m0\<lparr>deleteConfirm := Some \<lparr>pendingQuestion = question row, pendingIndex = entryIndex row\<rparr>,
          confirmPrompt := ''Delete this entry? (y/n)'', showDeletePrompt := True\<rparr>, None)"
      by (intro handleKey_delete_request) simp_all
    show "deleteConfirm (fst (handleKey e ''d'' m0)) =
          Some \<lparr>pendingQuestion = question row, pendingIndex = entryIndex row\<rparr>"
      "log (fst (handleKey e ''d'' m0)) = log m0"
      "saveCalls (fst (handleKey e ''d'' m0)) = saveCalls m0"
      by (simp_all add: h)
  }
qed

lemma twoEntries_Q1:
  "answersOf twoEntries ''Q1'' =
     [\<lparr>Time = ''09:00'', Response = ''a''\<rparr>, \<lparr>Time = ''10:00'', Response = ''b''\<rparr>]"
  by (simp add: twoEntries_def answersOf_def)

lemma twoEntries_Answers:
  "Answers twoEntries =
     [(''Q1'', [\<lparr>Time = ''09:00'', Response = ''a''\<rparr>, \<lparr>Time = ''10:00'', Response = ''b''\<rparr>])]"
  by (simp add: twoEntries_def)

lemma twoSession_rows:
  "rows (exampleSession [''Q1''] True confirm twoEntries) =
     [\<lparr>kind = rowQuestion, question = ''Q1'', entryIndex = 0\<rparr>,
      \<lparr>kind = rowEntry, question = ''Q1'', entryIndex = 0\<rparr>,
      \<lparr>kind = rowEntry, question = ''Q1'', entryIndex = 1\<rparr>]"
  "deleteConfirm (exampleSession qs lm confirm l) = None"
  "confirmDelete (exampleSession qs lm confirm l) = confirm"
  by (simp_all add: exampleSession_def refreshQuestions_def rebuildRows_def mergeQuestions_def
      Let_def initialModel_def exampleConfig_def DefaultListModeEnabled_def
      ConfirmDeleteEnabled_def rowsFor_def twoEntries_Q1 twoEntries_Answers)

lemma twoSession_down:
  "fst (handleKey e ''down'' (exampleSession [''Q1''] True confirm twoEntries)) =
     (exampleSession [''Q1''] True confirm twoEntries)\<lparr>selected := 1\<rparr>"
  by (simp add: handleKey_def viewHandling_def handleListKey_def moveSelection_def Let_def
      twoSession_rows exampleSession_empty_log exampleSession_selected wrapInt_def)

lemma twoSession_request:
  "fst (handleKey e ''d'' ((exampleSession [''Q1''] True True twoEntries)\<lparr>selected := 1\<rparr>)) =
     (exampleSession [''Q1''] True True twoEntries)
       \<lparr>selected := 1,
        deleteConfirm := Some \<lparr>pendingQuestion = ''Q1'', pendingIndex = 0\<rparr>,
        confirmPrompt := ''Delete this entry? (y/n)'', showDeletePrompt := True\<rparr>"
proof -
  let ?m = "(exampleSession [''Q1''] True True twoEntries)\<lparr>selected := 1\<rparr>"
  have c: "currentRow ?m = Some \<lparr>kind = rowEntry, question = ''Q1'', entryIndex = 0\<rparr>"
    by (simp add: currentRow_def twoSession_rows)
  have "handleKey e ''d'' ?m =
     (?m\<lparr>deleteConfirm := Some \<lparr>pendingQuestion = question \<lparr>kind = rowEntry, question = ''Q1'', entryIndex = 0\<rparr>,
                                 pendingIndex = entryIndex \<lparr>kind = rowEntry, question = ''Q1'', entryIndex = 0\<rparr>\<rparr>,
        confirmPrompt := ''Delete this entry? (y/n)'', showDeletePrompt := True\<rparr>, None)"
    by (rule handleKey_delete_request [OF _ _ _ _ c])
       (simp_all add: exampleSession_empty_log twoSession_rows twoEntries_Q1)
  then show ?thesis by simp
qed

theorem delete_confirmation_flow_witness:
  "log (fst (handleKey (exampleEnv twoEntries None) ''n''
      ((exampleSession [''Q1''] True True twoEntries)
         \<lparr>deleteConfirm := Some \<lparr>pendingQuestion = ''Q1'', pendingIndex = 0\<rparr>\<rparr>))) =
   log ((exampleSession [''Q1''] True True twoEntries)
         \<lparr>deleteConfirm := Some \<lparr>pendingQuestion = ''Q1'', pendingIndex = 0\<rparr>\<rparr>)
   \<and> deleteConfirm (fst (handleKey (exampleEnv twoEntries None) ''n''
      ((exampleSession [''Q1''] True True twoEntries)
         \<lparr>deleteConfirm := Some \<lparr>pendingQuestion = ''Q1'', pendingIndex = 0\<rparr>\<rparr>))) = None"
proof -
  let ?e = "exampleEnv twoEntries None"
  let ?m = "(exampleSession [''Q1''] True True twoEntries)
         \<lparr>deleteConfirm := Some \<lparr>pendingQuestion = ''Q1'', pendingIndex = 0\<rparr>\<rparr>"
  let ?p = "\<lparr>pendingQuestion = ''Q1'', pendingIndex = 0\<rparr>"
  have h: "view ?m = viewList" "deleteConfirm ?m = Some ?p" "0 \<le> pendingIndex ?p"
    "pendingIndex ?p < int (length (answersOf (log ?m) (pendingQuestion ?p)))"
    by (simp_all add: exampleSession_empty_log twoEntries_Q1)
  from delete_confirmation_flow [OF h, of "''n''" ?e] show ?thesis
    by blast
qed

text \<open>
  Claim C3 as stated has every response other than \<open>y\<close> cancel the pending deletion.
  After "down" and \<open>d\<close> on the first entry of Q1, the key \<open>x\<close> leaves the deletion
  pending, and a following \<open>y\<close> still deletes the entry.
\<close>

theorem other_key_keeps_pending_counterexample:
  "deleteConfirm
     (fst (handleKey (exampleEnv twoEntries None) ''x''
        (fst (handleKey (exampleEnv twoEntries None) ''d''
           (fst (handleKey (exampleEnv twoEntries None) ''down''
              (exampleSession [''Q1''] True True twoEntries)))))))
   = Some \<lparr>pendingQuestion = ''Q1'', pendingIndex = 0\<rparr>
   \<and> answersOf (log
     (fst (handleKey (exampleEnv twoEntries None) ''y''
        (fst (handleKey (exampleEnv twoEntries None) ''x''
           (fst (handleKey (exampleEnv twoEntries None) ''d''
              (fst (handleKey (exampleEnv twoEntries None) ''down''
                 (exampleSession [''Q1''] True True twoEntries)))))))))) ''Q1''
   = [\<lparr>Time = ''10:00'', Response = ''b''\<rparr>]"
proof -
  let ?e = "exampleEnv twoEntries None"
  let ?p = "(exampleSession [''Q1''] True True twoEntries)
       \<lparr>selected := 1,
        deleteConfirm := Some \<lparr>pendingQuestion = ''Q1'', pendingIndex = 0\<rparr>,
        confirmPrompt := ''Delete this entry? (y/n)'', showDeletePrompt := True\<rparr>"
  have x: "handleKey ?e ''x'' ?p = (setStatus ''Confirm delete with y or n.'' ?p, None)"
    by (rule handleKey_pending_other [where p = "\<lparr>pendingQuestion = ''Q1'', pendingIndex = 0\<rparr>"])
       (simp_all add: exampleSession_empty_log)
  let ?x = "setStatus ''Confirm delete with y or n.'' ?p"
  let ?x2 = "?x\<lparr>deleteConfirm := None, confirmPrompt := [], showDeletePrompt := False\<rparr>"
  have y: "handleKey ?e ''y'' ?x = (performDeleteEntry ?e ''Q1'' 0 ?x2, None)"
    using handleKey_pending_yes [of ?x "\<lparr>pendingQuestion = ''Q1'', pendingIndex = 0\<rparr>" "''y''" ?e]
    by (simp add: exampleSession_empty_log)
  have "answersOf (log (performDeleteEntry ?e ''Q1'' 0 ?x2)) ''Q1'' = [\<lparr>Time = ''10:00'', Response = ''b''\<rparr>]"
    using performDeleteEntry_log(1) [of 0 ?x2 "''Q1''" ?e]
    by (simp add: twoEntries_Q1 removeAt_def answersOf_setAnswers)
  then show ?thesis
    by (simp add: twoSession_down twoSession_request x y)
qed

section \<open>Toggling list mode\<close>

lemma indexQuestions_absent:
  "q \<notin> set qs \<Longrightarrow> indexQuestions qs i qi q = qi q"
  by (induction qs arbitrary: i qi) auto

lemma indexQuestions_present:
  "q \<in> set qs \<Longrightarrow>
   \<exists>idx. indexQuestions qs i qi q = Some idx \<and> i \<le> idx \<and> idx < i + int (length qs)
     \<and> qs ! nat (idx - i) = q"
proof (induction qs arbitrary: i qi)
  case Nil
  then show ?case by simp
next
  case (Cons a qs)
  show ?case
  proof (cases "q \<in> set qs")
    case True
    from Cons.IH [OF True, of "i + 1" "qi(a \<mapsto> i)"]
    obtain idx where x: "indexQuestions qs (i + 1) (qi(a \<mapsto> i)) q = Some idx"
      "i + 1 \<le> idx" "idx < i + 1 + int (length qs)" "qs ! nat (idx - (i + 1)) = q"
      by blast
    from x(2) have "nat (idx - i) = Suc (nat (idx - (i + 1)))"
      by simp
    with x show ?thesis
      by auto
  next
    case False
    with Cons.prems have "q = a" by simp
    with False have "indexQuestions (a # qs) i qi q = Some i"
      by (simp add: indexQuestions_absent)
    then show ?thesis
      using \<open>q = a\<close> by simp
  qed
qed

lemma length_rowsFor: "length (rowsFor lm l q) = (if lm then 1 + length (answersOf l q) else 1)"
  by (simp add: rowsFor_def)

lemma rowsFor_head: "rowsFor lm l q ! 0 = header q"
  by (simp add: rowsFor_def)

lemma rowOffsetLoop_row:
  "i \<le> idx \<Longrightarrow> idx < i + int (length qs) \<Longrightarrow>
   offset \<le> rowOffsetLoop l qs i idx offset
   \<and> nat (rowOffsetLoop l qs i idx offset - offset) < length (concat (map (rowsFor True l) qs))
   \<and> concat (map (rowsFor True l) qs) ! nat (rowOffsetLoop l qs i idx offset - offset) =
       header (qs ! nat (idx - i))"
proof (induction qs arbitrary: i offset)
  case Nil
  then show ?case by simp
next
  case (Cons q qs)
  show ?case
  proof (cases "i = idx")
    case True
    then show ?thesis
      by (simp add: nth_append length_rowsFor rowsFor_head)
  next
    case False
    let ?n = "int (length (answersOf l q))"
    let ?r = "rowOffsetLoop l qs (i + 1) idx (offset + 1 + ?n)"
    from False Cons.prems have p: "i + 1 \<le> idx" "idx < i + 1 + int (length qs)"
      by simp_all
    from Cons.IH [OF p, of "offset + 1 + ?n"]
    have ih: "offset + 1 + ?n \<le> ?r"
      "nat (?r - (offset + 1 + ?n)) < length (concat (map (rowsFor True l) qs))"
      "concat (map (rowsFor True l) qs) ! nat (?r - (offset + 1 + ?n)) =
         header (qs ! nat (idx - (i + 1)))"
      by simp_all
    have e: "rowOffsetLoop l (q # qs) i idx offset = ?r"
      using False by simp
    have n: "nat (?r - offset) = length (rowsFor True l q) + nat (?r - (offset + 1 + ?n))"
      using ih(1) by (simp add: length_rowsFor)
    have s: "nat (idx - i) = Suc (nat (idx - (i + 1)))"
      using p(1) by simp
    show ?thesis
      unfolding e n s using ih by (simp add: nth_append)
  qed
qed

lemma rows_plain: "concat (map (rowsFor False l) qs) = map header qs"
  by (induction qs) (simp_all add: rowsFor_def)

lemma rowIndexForQuestion_row:
  assumes "rowsInSync m" "0 \<le> idx" "idx < int (length (questions m))"
  shows "0 \<le> rowIndexForQuestion idx m
    \<and> rowIndexForQuestion idx m < int (length (rows m))
    \<and> rows m ! nat (rowIndexForQuestion idx m) = header (questions m ! nat idx)"
proof (cases "listMode m")
  case True
  from rowOffsetLoop_row [of 0 idx "questions m" 0 "log m"] assms(2,3)
  have "0 \<le> rowOffsetLoop (log m) (questions m) 0 idx 0"
    "nat (rowOffsetLoop (log m) (questions m) 0 idx 0) < length (concat (map (rowsFor True (log m)) (questions m)))"
    "concat (map (rowsFor True (log m)) (questions m)) ! nat (rowOffsetLoop (log m) (questions m) 0 idx 0) =
       header (questions m ! nat idx)"
    by simp_all
  with True assms show ?thesis
    by (simp add: rowIndexForQuestion_def rowsInSync_def)
next
  case False
  with assms show ?thesis
    by (simp add: rowIndexForQuestion_def rowsInSync_def rows_plain)
qed

lemma currentRow_selected:
  assumes "rowsInSync m" "0 \<le> idx" "idx < int (length (questions m))"
  shows "currentRow (m\<lparr>selected := rowIndexForQuestion idx m\<rparr>) = Some (header (questions m ! nat idx))"
proof -
  from rowIndexForQuestion_row [OF assms]
  have r: "0 \<le> rowIndexForQuestion idx m" "rowIndexForQuestion idx m < int (length (rows m))"
    "rows m ! nat (rowIndexForQuestion idx m) = header (questions m ! nat idx)"
    by simp_all
  then have "rows m \<noteq> []"
    by auto
  with r show ?thesis
    by (simp add: currentRow_def)
qed

lemma refresh_sync:
  "rowsInSync (refreshQuestions m)"
  "questions (refreshQuestions m) = mergeQuestions (cfgQuestions m) (log m)"
  "questionIndex (refreshQuestions m) = indexQuestions (mergeQuestions (cfgQuestions m) (log m)) 0 Map.empty"
  "listMode (refreshQuestions m) = listMode m"
  "cfgQuestions (refreshQuestions m) = cfgQuestions m"
  by (simp_all add: refreshQuestions_def rebuildRows_def rowsInSync_def Let_def)

lemma toggle_form:
  "\<exists>s. toggleListMode m = (refreshQuestions (m\<lparr>listMode := \<not> listMode m\<rparr>))\<lparr>selected := s\<rparr>"
proof -
  let ?m1 = "refreshQuestions (m\<lparr>listMode := \<not> listMode m\<rparr>)"
  have "toggleListMode m = ?m1 \<or> (\<exists>s. toggleListMode m = ?m1\<lparr>selected := s\<rparr>)"
    by (auto simp: toggleListMode_def Let_def split: option.split)
  moreover have "?m1 = ?m1\<lparr>selected := selected ?m1\<rparr>"
    by simp
  ultimately show ?thesis
    by metis
qed

lemma toggle_frame:
  "log (toggleListMode m) = log m"
  "cfgQuestions (toggleListMode m) = cfgQuestions m"
  "listMode (toggleListMode m) = (\<not> listMode m)"
proof -
  obtain s where "toggleListMode m = (refreshQuestions (m\<lparr>listMode := \<not> listMode m\<rparr>))\<lparr>selected := s\<rparr>"
    using toggle_form by blast
  then show "log (toggleListMode m) = log m"
    "cfgQuestions (toggleListMode m) = cfgQuestions m"
    "listMode (toggleListMode m) = (\<not> listMode m)"
    by (simp_all add: refresh_sync)
qed

lemma toggle_select:
  assumes "currentRow m = Some row" "question row \<noteq> []"
    and "question row \<in> set (mergeQuestions (cfgQuestions m) (log m))"
  shows "currentRow (toggleListMode m) = Some (header (question row))"
proof -
  let ?m1 = "refreshQuestions (m\<lparr>listMode := \<not> listMode m\<rparr>)"
  let ?q = "question row"
  have qs: "questions ?m1 = mergeQuestions (cfgQuestions m) (log m)"
    by (simp add: refresh_sync)
  from indexQuestions_present [OF assms(3), of 0 Map.empty]
  obtain idx where i: "questionIndex ?m1 ?q = Some idx" "0 \<le> idx"
    "idx < int (length (questions ?m1))" "questions ?m1 ! nat idx = ?q"
    by (auto simp: refresh_sync)
  have s: "rowsInSync ?m1"
    by (rule refresh_sync)
  from rowIndexForQuestion_row [OF s i(2,3)] have "0 \<le> rowIndexForQuestion idx ?m1"
    by simp
  with assms(1,2) i(1) have "toggleListMode m = ?m1\<lparr>selected := rowIndexForQuestion idx ?m1\<rparr>"
    by (simp add: toggleListMode_def Let_def)
  with currentRow_selected [OF s i(2,3)] i(4) show ?thesis
    by simp
qed

lemma toggle_keep:
  assumes "currentRow m = None \<or> (\<exists>row. currentRow m = Some row \<and>
      (question row = [] \<or> question row \<notin> set (mergeQuestions (cfgQuestions m) (log m))))"
  shows "toggleListMode m = refreshQuestions (m\<lparr>listMode := \<not> listMode m\<rparr>)"
proof -
  have "questionIndex (refreshQuestions (m\<lparr>listMode := \<not> listMode m\<rparr>)) q = None"
    if "q \<notin> set (mergeQuestions (cfgQuestions m) (log m))" for q
    using that by (simp add: refresh_sync indexQuestions_absent)
  with assms show ?thesis
    by (auto simp: toggleListMode_def Let_def)
qed

lemma rebuildRows_selected: "selected (rebuildRows x) = selected x"
  by (simp add: rebuildRows_def)

lemma refresh_selected:
  "selected (refreshQuestions x) =
     (if rows (refreshQuestions x) = [] then 0
      else if int (length (rows (refreshQuestions x))) \<le> selected x
      then int (length (rows (refreshQuestions x))) - 1
      else selected x)"
  by (simp add: refreshQuestions_def Let_def rebuildRows_selected)

text \<open>
  Claim C8, amended. When the selected row belongs to a question with non-empty text that
  is in the question set, toggling list mode selects the row of that question itself, and
  so does toggling a second time, which also restores the list mode. In every other case
  (no row selected, a question with empty text, a question that is no longer in the
  question set) the toggle only refreshes: the selection keeps its index, cut down to
  the last row when it lies beyond, and is 0 when there are no rows.
\<close>

theorem toggle_reselects_question:
  assumes "currentRow m = Some row" and "question row \<noteq> []"
    and "question row \<in> set (mergeQuestions (cfgQuestions m) (log m))"
  shows "currentRow (toggleListMode m) = Some \<lparr>kind = rowQuestion, question = question row, entryIndex = 0\<rparr>
    \<and> currentRow (toggleListMode (toggleListMode m)) =
        Some \<lparr>kind = rowQuestion, question = question row, entryIndex = 0\<rparr>
    \<and> listMode (toggleListMode (toggleListMode m)) = listMode m
    \<and> (\<forall>m'. (currentRow m' = None \<or> (\<exists>r. currentRow m' = Some r \<and>
            (question r = [] \<or> question r \<notin> set (mergeQuestions (cfgQuestions m') (log m'))))) \<longrightarrow>
          toggleListMode m' = refreshQuestions (m'\<lparr>listMode := \<not> listMode m'\<rparr>)
        \<and> selected (toggleListMode m') =
            (if rows (toggleListMode m') = [] then 0
             else if int (length (rows (toggleListMode m'))) \<le> selected m'
             then int (length (rows (toggleListMode m'))) - 1
             else selected m'))"
proof -
  have one: "currentRow (toggleListMode m) = Some (header (question row))"
    by (rule toggle_select [OF assms])
  have q: "question (header (question row)) \<noteq> []"
    using assms(2) by simp
  have "question (header (question row)) \<in>
      set (mergeQuestions (cfgQuestions (toggleListMode m)) (log (toggleListMode m)))"
    using assms(3) by (simp add: toggle_frame)
  from toggle_select [OF one q this]
  have two: "currentRow (toggleListMode (toggleListMode m)) = Some (header (question row))"
    by simp
  have keep: "toggleListMode m' = refreshQuestions (m'\<lparr>listMode := \<not> listMode m'\<rparr>)
        \<and> selected (toggleListMode m') =
            (if rows (toggleListMode m') = [] then 0
             else if int (length (rows (toggleListMode m'))) \<le> selected m'
             then int (length (rows (toggleListMode m'))) - 1
             else selected m')"
    if c: "currentRow m' = None \<or> (\<exists>r. currentRow m' = Some r \<and>
            (question r = [] \<or> question r \<notin> set (mergeQuestions (cfgQuestions m') (log m'))))"
    for m'
  proof -
    have t: "toggleListMode m' = refreshQuestions (m'\<lparr>listMode := \<not> listMode m'\<rparr>)"
      by (rule toggle_keep [OF c])
    have "selected (m'\<lparr>listMode := \<not> listMode m'\<rparr>) = selected m'"
      by simp
    with refresh_selected [of "m'\<lparr>listMode := \<not> listMode m'\<rparr>"] show ?thesis
      unfolding t by simp
  qed
  have three: "listMode (toggleListMode (toggleListMode m)) = listMode m"
    by (simp add: toggle_frame)
  from one two three keep show ?thesis
    by blast
qed

lemma Update_key_list:
  assumes "view m = viewList"
  shows "fst (Update e (KeyMsg k) m) = (fst (handleKey e k m))\<lparr>statusTimerCmd := None\<rparr>"
proof -
  have u: "updateInput e (KeyMsg k) m = (m, [])"
    using assms by (simp add: updateInput_def)
  obtain m' c where h: "handleKey e k m = (m', c)"
    by (cases "handleKey e k m")
  obtain cs where d: "dispatch e (KeyMsg k) m [] = (m', cs)"
    using h by (cases c) (simp_all add: dispatch_def)
  have "fst (flushStatusTimer m' cs) = m'\<lparr>statusTimerCmd := None\<rparr>"
    by (cases "statusTimerCmd m'") (simp_all add: flushStatusTimer_def)
  then show ?thesis
    by (simp add: Update_def u h d)
qed

lemma handleKey_down:
  assumes "view m = viewList" "deleteConfirm m = None"
  shows "fst (handleKey e ''down'' m) = moveSelection 1 m"
  using assms by (simp add: handleKey_def viewHandling_def handleListKey_def)

lemma handleKey_toggle:
  assumes "view m = viewList" "deleteConfirm m = None"
  shows "fst (handleKey e ''l'' m) = toggleListMode m"
  using assms by (simp add: handleKey_def viewHandling_def handleListKey_def)

lemma moveSelection_down:
  assumes "0 \<le> selected m" "selected m + 1 < int (length (rows m))" "selected m + 1 < 2 ^ 63"
  shows "moveSelection 1 m = m\<lparr>selected := selected m + 1\<rparr>"
  using assms by (auto simp: moveSelection_def Let_def wrapInt_def)

lemma currentRow_timer [simp]: "currentRow (m\<lparr>statusTimerCmd := c\<rparr>) = currentRow m"
  by (simp add: currentRow_def)

lemma blankSession:
  "rows (exampleSession [''Q1'', ''''] False True twoEntries) = [header ''Q1'', header '''']"
  by (simp add: exampleSession_def refreshQuestions_def rebuildRows_def mergeQuestions_def
      Let_def initialModel_def exampleConfig_def DefaultListModeEnabled_def rowsFor_def
      twoEntries_Answers)

lemma blank_merge:
  "mergeQuestions [''Q1'', ''''] twoEntries = [''Q1'', '''']"
  by (simp add: mergeQuestions_def twoEntries_Answers)

theorem toggle_reselects_question_witness:
  "currentRow ((exampleSession [''Q1''] True True twoEntries)\<lparr>selected := 1\<rparr>) =
     Some \<lparr>kind = rowEntry, question = ''Q1'', entryIndex = 0\<rparr>
   \<and> currentRow (toggleListMode ((exampleSession [''Q1''] True True twoEntries)\<lparr>selected := 1\<rparr>)) =
     Some \<lparr>kind = rowQuestion, question = ''Q1'', entryIndex = 0\<rparr>
   \<and> currentRow (toggleListMode (toggleListMode
        ((exampleSession [''Q1''] True True twoEntries)\<lparr>selected := 1\<rparr>))) =
     Some \<lparr>kind = rowQuestion, question = ''Q1'', entryIndex = 0\<rparr>"
proof -
  let ?m = "(exampleSession [''Q1''] True True twoEntries)\<lparr>selected := 1\<rparr>"
  let ?r = "\<lparr>kind = rowEntry, question = ''Q1'', entryIndex = 0\<rparr>"
  have c: "currentRow ?m = Some ?r"
    by (simp add: currentRow_def twoSession_rows)
  have q: "question ?r \<noteq> []"
    by simp
  have s: "question ?r \<in> set (mergeQuestions (cfgQuestions ?m) (log ?m))"
    by (simp add: mergeQuestions_def exampleSession_empty_log)
  from toggle_reselects_question [OF c q s] c show ?thesis
    by simp
qed

text \<open>
  Claim C8 as stated re-selects the row of the question selected before, or position 0
  when the question is not found. With the questions Q1 (two entries) and the empty
  string, and the row of the empty question selected, toggling list mode leaves the
  selection at index 1, which is now the first entry of Q1, and toggling again selects
  Q1: neither the row of the question selected before nor position 0, and the question
  is not restored.
\<close>

theorem toggle_empty_question_counterexample:
  "currentRow (runEvents (exampleEnv twoEntries None) [KeyMsg ''down'']
      (exampleSession [''Q1'', ''''] False True twoEntries)) =
     Some \<lparr>kind = rowQuestion, question = [], entryIndex = 0\<rparr>
   \<and> selected (runEvents (exampleEnv twoEntries None) [KeyMsg ''down'', KeyMsg ''l'']
      (exampleSession [''Q1'', ''''] False True twoEntries)) = 1
   \<and> currentRow (runEvents (exampleEnv twoEntries None) [KeyMsg ''down'', KeyMsg ''l'']
      (exampleSession [''Q1'', ''''] False True twoEntries)) =
     Some \<lparr>kind = rowEntry, question = ''Q1'', entryIndex = 0\<rparr>
   \<and> currentRow (runEvents (exampleEnv twoEntries None) [KeyMsg ''down'', KeyMsg ''l'', KeyMsg ''l'']
      (exampleSession [''Q1'', ''''] False True twoEntries)) =
     Some \<lparr>kind = rowQuestion, question = ''Q1'', entryIndex = 0\<rparr>"
proof -
  let ?e = "exampleEnv twoEntries None"
  let ?n = "exampleSession [''Q1'', ''''] False True twoEntries"
  let ?n1 = "?n\<lparr>selected := 1, statusTimerCmd := None\<rparr>"
  have "moveSelection 1 ?n = ?n\<lparr>selected := selected ?n + 1\<rparr>"
    by (rule moveSelection_down) (simp_all add: exampleSession_selected blankSession)
  then have s1: "fst (Update ?e (KeyMsg ''down'') ?n) = ?n1"
    by (simp add: Update_key_list handleKey_down exampleSession_empty_log twoSession_rows
        exampleSession_selected)
  have c1: "currentRow ?n1 = Some (header [])"
    by (simp add: currentRow_def blankSession)
  let ?t = "refreshQuestions (?n1\<lparr>listMode := True\<rparr>)"
  have "toggleListMode ?n1 = refreshQuestions (?n1\<lparr>listMode := \<not> listMode ?n1\<rparr>)"
    by (rule toggle_keep) (use c1 in simp)
  then have t1: "toggleListMode ?n1 = ?t"
    by (simp add: exampleSession_empty_log)
  have s2: "fst (Update ?e (KeyMsg ''l'') ?n1) = ?t\<lparr>statusTimerCmd := None\<rparr>"
    by (simp add: Update_key_list handleKey_toggle exampleSession_empty_log twoSession_rows t1)
  have rt: "rows ?t = [header ''Q1'', \<lparr>kind = rowEntry, question = ''Q1'', entryIndex = 0\<rparr>,
      \<lparr>kind = rowEntry, question = ''Q1'', entryIndex = 1\<rparr>, header []]"
    using refresh_sync(1) [of "?n1\<lparr>listMode := True\<rparr>"]
    by (simp add: rowsInSync_def refresh_sync exampleSession_empty_log blank_merge rowsFor_def
        answersOf_def twoEntries_Answers)
  have st: "selected ?t = 1"
    using refresh_selected [of "?n1\<lparr>listMode := True\<rparr>"] by (simp add: rt)
  have c2: "currentRow ?t = Some \<lparr>kind = rowEntry, question = ''Q1'', entryIndex = 0\<rparr>"
    by (simp add: currentRow_def rt st)
  have "currentRow (toggleListMode ?t) =
      Some (header (question \<lparr>kind = rowEntry, question = ''Q1'', entryIndex = 0\<rparr>))"
    by (rule toggle_select [OF c2])
       (simp_all add: refresh_sync exampleSession_empty_log blank_merge)
  then have c3: "currentRow (toggleListMode ?t) = Some (header ''Q1'')"
    by simp
  have tt: "?t\<lparr>statusTimerCmd := None\<rparr> = ?t"
    by (simp add: refreshQuestions_def rebuildRows_def Let_def exampleSession_def initialModel_def)
  have s3: "fst (Update ?e (KeyMsg ''l'') ?t) = (toggleListMode ?t)\<lparr>statusTimerCmd := None\<rparr>"
    by (simp add: Update_key_list handleKey_toggle refresh_threshold exampleSession_empty_log)
  have r1: "runEvents ?e [KeyMsg ''down''] ?n = ?n1"
    unfolding runEvents.simps s1 ..
  have r2: "runEvents ?e [KeyMsg ''down'', KeyMsg ''l''] ?n = ?t"
    unfolding runEvents.simps s1 s2 tt ..
  have r3: "runEvents ?e [KeyMsg ''down'', KeyMsg ''l'', KeyMsg ''l''] ?n =
      (toggleListMode ?t)\<lparr>statusTimerCmd := None\<rparr>"
    unfolding runEvents.simps s1 s2 tt s3 ..
  show ?thesis
    unfolding r1 r2 r3 using c1 c2 c3 st by simp
qed

section \<open>The selection after a save that failed\<close>

lemma parse_x: "parseEditorLines ''x'' = [''x'']"
  by (simp add: parseEditorLines_def TrimSpace_def stripLeading_fixed stripLeading_Some
      leadingOf_def spaceEncodings_def)

lemma cmd_x:
  "editEntriesCmd \<lparr>createTempErr = None, writeStringErr = None, buildCommandErr = None,
       execErr = None, readFileResult = Inr [CHR ''x'', LF]\<rparr> ''A'' [] (- 1) =
   \<lparr>erQuestion = ''A'', erEntryIndex = - 1, responses = [''x''], changed = True, erErr = None\<rparr>"
  by (simp add: editEntriesCmd_def normalizeEditorContent_def trimRightLF_def parse_x)

lemma abSession:
  "rows (exampleSession [''A'', ''B''] True True \<lparr>Date = [], Answers = []\<rparr>) =
     [header ''A'', header ''B'']"
  "autoOpenIndex (exampleSession qs lm confirm l) = False"
  "statusTimerCmd (exampleSession qs lm confirm l) = None"
  by (simp_all add: exampleSession_def refreshQuestions_def rebuildRows_def mergeQuestions_def
      Let_def initialModel_def exampleConfig_def DefaultListModeEnabled_def rowsFor_def
      AutoOpenIndexJumpEnabled_def answersOf_def)

text \<open>
  Claim C10 asks that the selection index stay within the rows after every transition.
  When \<open>app.SaveDayLog\<close> fails, \<open>applyQuestionEdit\<close> (like \<open>performDeleteEntry\<close>,
  \<open>applySingleEntryEdit\<close> and \<open>saveInlineEntry\<close>) returns before \<open>refreshQuestions\<close>, with
  the record changed and the rows not rebuilt, and \<open>jumpToIndex\<close> then computes a row
  from the changed record. With the questions A and B, list mode on and an empty record:
  \<open>e\<close> on A, an editor result with the one line "x" whose save fails, and the key \<open>1\<close>
  leave the selection at 2 with two rows.
\<close>

theorem stale_rows_selection_out_of_range:
  "selected (runEvents (exampleEnv \<lparr>Date = [], Answers = []\<rparr> (Some ''disk full''))
      [KeyMsg ''e'',
       EditorResultMsg
         (editEntriesCmd \<lparr>createTempErr = None, writeStringErr = None, buildCommandErr = None,
              execErr = None, readFileResult = Inr [CHR ''x'', LF]\<rparr> ''A'' [] (- 1)),
       KeyMsg ''1'']
      (exampleSession [''A'', ''B''] True True \<lparr>Date = [], Answers = []\<rparr>)) = 2
   \<and> length (rows (runEvents (exampleEnv \<lparr>Date = [], Answers = []\<rparr> (Some ''disk full''))
      [KeyMsg ''e'',
       EditorResultMsg
         (editEntriesCmd \<lparr>createTempErr = None, writeStringErr = None, buildCommandErr = None,
              execErr = None, readFileResult = Inr [CHR ''x'', LF]\<rparr> ''A'' [] (- 1)),
       KeyMsg ''1'']
      (exampleSession [''A'', ''B''] True True \<lparr>Date = [], Answers = []\<rparr>))) = 2"
proof -
  let ?e = "exampleEnv \<lparr>Date = [], Answers = []\<rparr> (Some ''disk full'')"
  let ?s = "exampleSession [''A'', ''B''] True True \<lparr>Date = [], Answers = []\<rparr>"
  let ?l = "\<lparr>Date = [], Answers = [(''A'', [\<lparr>Time = ''2024-05-01T12:00:00Z'', Response = ''x''\<rparr>])]\<rparr>"
  let ?s2 = "?s\<lparr>log := ?l, saveCalls := [(0, ?l)], err := Some ''disk full''\<rparr>"
  have c: "currentRow ?s = Some (header ''A'')"
    by (simp add: currentRow_def abSession exampleSession_selected)
  have "fst (handleKey ?e ''e'' ?s) = ?s"
    using c by (simp add: handleKey_def viewHandling_def handleListKey_def
        exampleSession_empty_log twoSession_rows)
  then have s1: "fst (Update ?e (KeyMsg ''e'') ?s) = ?s"
    by (simp add: Update_key_list exampleSession_empty_log abSession)
  have u2: "updateInput ?e msg ?s = (?s, [])" for msg
    by (simp add: updateInput_def exampleSession_empty_log)
  have a: "applyQuestionEdit ?e ''A'' [''x''] ?s = ?s2"
    by (simp add: applyQuestionEdit_def Let_def rebuildAnswers_def answersOf_def
        TrimSpace_def stripLeading_fixed stripLeading_Some leadingOf_def spaceEncodings_def
        setAnswers_def exampleEnv_def)
  have s2: "fst (Update ?e (EditorResultMsg
      \<lparr>erQuestion = ''A'', erEntryIndex = - 1, responses = [''x''], changed = True, erErr = None\<rparr>) ?s) = ?s2"
    by (simp add: Update_def u2 dispatch_def handleEditorResult_def a flushStatusTimer_def abSession)
  have j: "jumpToIndex (CHR ''1'') ?s2 = (?s2\<lparr>selected := rowIndexForQuestion 1 ?s2\<rparr>, True)"
    by (rule jumpToIndex_in_range)
       (simp_all add: runeToIndex_def indexRunes_def exampleSession_empty_log)
  have r: "rowIndexForQuestion 1 ?s2 = 2"
    by (simp add: rowIndexForQuestion_def exampleSession_empty_log answersOf_def)
  have "fst (handleKey ?e ''1'' ?s2) = ?s2\<lparr>selected := 2\<rparr>"
    using j r by (simp add: handleKey_def viewHandling_def handleListKey_def isLetter_def
        Let_def exampleSession_empty_log twoSession_rows abSession)
  then have s3: "fst (Update ?e (KeyMsg ''1'') ?s2) = ?s2\<lparr>selected := 2, statusTimerCmd := None\<rparr>"
    by (simp add: Update_key_list exampleSession_empty_log)
  have "runEvents ?e [KeyMsg ''e'',
       EditorResultMsg
         \<lparr>erQuestion = ''A'', erEntryIndex = - 1, responses = [''x''], changed = True, erErr = None\<rparr>,
       KeyMsg ''1''] ?s = ?s2\<lparr>selected := 2, statusTimerCmd := None\<rparr>"
    unfolding runEvents.simps s1 s2 s3 ..
  then show ?thesis
    unfolding cmd_x by (simp add: abSession)
qed

end
